theory Spec2Isabelle
  imports Main "HOL-Library.Word"
begin

section \<open>The ledger contract: solidity/contracts/FakeProdDetector.sol\<close>

text \<open>
  Solidity's \<open>bytes32\<close> and \<open>uint256\<close> are 256-bit words, a Solidity \<open>string\<close> is a byte
  string. A \<open>mapping(bytes32 => Product)\<close> is total: a key never written reads as the
  zero value of \<open>Product\<close>, so the storage is a function, not a partial map.
\<close>

type_synonym bytes32 = "256 word"
type_synonym uint256 = "256 word"

record Product =
  name :: string
  color :: string
  material :: string
  price :: uint256
  year :: uint256

datatype event = ProductUploaded bytes32 string string string uint256 uint256

record FakeProdDetector =
  products :: "bytes32 \<Rightarrow> Product"
  events :: "event list"

text \<open>The zero value of the struct, and the contract right after deployment.\<close>

definition zero_Product :: Product where
  "zero_Product = \<lparr>name = [], color = [], material = [], price = 0, year = 0\<rparr>"

definition deployed :: FakeProdDetector where
  "deployed = \<lparr>products = (\<lambda>_. zero_Product), events = []\<rparr>"

text \<open>
  \<open>uploadProduct\<close> has no \<open>require\<close>, no modifier and no sender check: it writes the slot
  and appends the event to the log. \<open>getProduct\<close> is a view.
\<close>

definition uploadProduct ::
  "bytes32 \<Rightarrow> string \<Rightarrow> string \<Rightarrow> string \<Rightarrow> uint256 \<Rightarrow> uint256 \<Rightarrow> FakeProdDetector \<Rightarrow> FakeProdDetector"
where
  "uploadProduct i n c m p y s =
     s\<lparr>products := (products s)(i := \<lparr>name = n, color = c, material = m, price = p, year = y\<rparr>),
       events := events s @ [ProductUploaded i n c m p y]\<rparr>"

definition getProduct :: "FakeProdDetector \<Rightarrow> bytes32 \<Rightarrow> string \<times> string \<times> string \<times> uint256 \<times> uint256" where
  "getProduct s i = (let p = products s i in (name p, color p, material p, price p, year p))"

text \<open>
  The key of the mapping is the \<open>bytes32 id\<close> the caller passes. A digest of 32 bytes is
  passed as the word its bytes spell, the first byte on top.
\<close>

definition bytes32_of_bytes :: "string \<Rightarrow> bytes32" where
  "bytes32_of_bytes bs = foldl (\<lambda>w b. w * 256 + of_char b) 0 bs"

text \<open>A transaction calling \<open>uploadProduct\<close>, and a block of them run in order.\<close>

record upload_tx =
  tx_id :: bytes32
  tx_name :: string
  tx_color :: string
  tx_material :: string
  tx_price :: uint256
  tx_year :: uint256

definition apply_tx :: "FakeProdDetector \<Rightarrow> upload_tx \<Rightarrow> FakeProdDetector" where
  "apply_tx s t = uploadProduct (tx_id t) (tx_name t) (tx_color t) (tx_material t) (tx_price t) (tx_year t) s"

definition run_txs :: "FakeProdDetector \<Rightarrow> upload_tx list \<Rightarrow> FakeProdDetector" where
  "run_txs s ts = foldl apply_tx s ts"

definition tx_attributes :: "upload_tx \<Rightarrow> string \<times> string \<times> string \<times> uint256 \<times> uint256" where
  "tx_attributes t = (tx_name t, tx_color t, tx_material t, tx_price t, tx_year t)"

text \<open>The most recent transaction of a block that wrote the key \<open>i\<close>, if any.\<close>

definition last_upload :: "bytes32 \<Rightarrow> upload_tx list \<Rightarrow> upload_tx option" where
  "last_upload i ts = find (\<lambda>t. tx_id t = i) (rev ts)"

section \<open>JavaScript strings\<close>

subsection \<open>Texts kept as bytes\<close>

text \<open>
  The texts of the registration form, the messages and the URLs are kept as \<open>string\<close>:
  a list of 8-bit characters, the UTF-8 bytes of the text, which is how the packed hash
  reads them. On these, \<open>trim\<close> strips the white space of ASCII (TAB, LF, VT, FF, CR and
  SPACE), \<open>toUpperCase\<close> maps the letters \<open>a\<close>..\<open>z\<close> to \<open>A\<close>..\<open>Z\<close>, and every other byte is
  left alone: they are \<open>String.prototype.trim\<close> and \<open>toUpperCase\<close> on ASCII text only.
\<close>

definition is_space :: "char \<Rightarrow> bool" where
  "is_space c = (c \<in> set [CHR 0x09, CHR 0x0A, CHR 0x0B, CHR 0x0C, CHR 0x0D, CHR '' ''])"

definition trim :: "string \<Rightarrow> string" where
  "trim s = rev (dropWhile is_space (rev (dropWhile is_space s)))"

definition lower_letters :: string where
  "lower_letters = ''abcdefghijklmnopqrstuvwxyz''"

definition upper_letters :: string where
  "upper_letters = ''ABCDEFGHIJKLMNOPQRSTUVWXYZ''"

definition to_upper :: "char \<Rightarrow> char" where
  "to_upper c = (case map_of (zip lower_letters upper_letters) c of Some u \<Rightarrow> u | None \<Rightarrow> c)"

definition toUpperCase :: "string \<Rightarrow> string" where
  "toUpperCase s = map to_upper s"

text \<open>\<open>String(n)\<close> for a non-negative integer \<open>n\<close>: its decimal digits.\<close>

definition digit_char :: "nat \<Rightarrow> char" where
  "digit_char d = ''0123456789'' ! d"

function string_of_nat :: "nat \<Rightarrow> string" where
  "string_of_nat n = (if n < 10 then [digit_char n] else string_of_nat (n div 10) @ [digit_char (n mod 10)])"
  by pat_completeness auto
termination
  by (relation "measure (\<lambda>n. n)") auto

declare string_of_nat.simps [simp del]

text \<open>
  On bytes (the registration panel encodes the short code the backend issued),
  \<open>encodeURIComponent\<close> keeps the unreserved characters and writes every other byte as
  \<open>%XX\<close>.
\<close>

definition uri_unreserved :: "char \<Rightarrow> bool" where
  "uri_unreserved c =
     (c \<in> set (upper_letters @ lower_letters @ ''0123456789'' @ ''-_.!~*()'' @ [CHR 0x27]))"

definition hex_digit :: "nat \<Rightarrow> char" where
  "hex_digit d = ''0123456789ABCDEF'' ! d"

definition encodeURIComponent :: "string \<Rightarrow> string" where
  "encodeURIComponent s =
     concat (map (\<lambda>c. if uri_unreserved c then [c]
                       else [CHR ''%'', hex_digit (of_char c div 16), hex_digit (of_char c mod 16)]) s)"

subsection \<open>Texts as UTF-16 code units\<close>

text \<open>
  Where a component computes on a text the user entered (its length, its white space, its
  letter case, its encoding in a URL), the text is modelled as JavaScript has it: a list
  of 16-bit code units, whose \<open>length\<close> is the length of the list. \<open>utf16\<close> writes an ASCII
  literal as code units.
\<close>

type_synonym code_unit = "16 word"
type_synonym ustring = "code_unit list"

definition utf16 :: "string \<Rightarrow> ustring" where
  "utf16 s = map of_char s"

text \<open>
  \<open>String.prototype.trim\<close> strips the code points \<open>WhiteSpace\<close> and \<open>LineTerminator\<close> of
  ECMAScript from both ends: TAB, LF, VT, FF, CR, SPACE, U+00A0, U+1680, U+2000 to U+200A,
  U+2028, U+2029, U+202F, U+205F, U+3000 and U+FEFF. All of them are single code units.
\<close>

definition white_space :: "code_unit list" where
  "white_space =
     [0x0009, 0x000A, 0x000B, 0x000C, 0x000D, 0x0020, 0x00A0, 0x1680,
      0x2000, 0x2001, 0x2002, 0x2003, 0x2004, 0x2005, 0x2006, 0x2007, 0x2008, 0x2009, 0x200A,
      0x2028, 0x2029, 0x202F, 0x205F, 0x3000, 0xFEFF]"

definition is_white_space :: "code_unit \<Rightarrow> bool" where
  "is_white_space u = (u \<in> set white_space)"

definition js_trim :: "ustring \<Rightarrow> ustring" where
  "js_trim s = rev (dropWhile is_white_space (rev (dropWhile is_white_space s)))"

text \<open>
  \<open>String.prototype.toUpperCase\<close> reads the string as code points (a lead surrogate
  followed by a trail surrogate is one code point, every other code unit is one by itself)
  and replaces each code point by its upper-case mapping in the Unicode character
  database, which can be longer than the code point. In ASCII the mapping takes \<open>a\<close>..\<open>z\<close>
  to \<open>A\<close>..\<open>Z\<close> and leaves everything else alone, and no white space has a mapping. For
  every other code point the mapping is the engine's table: it is the parameter \<open>ucd\<close>,
  from the code units of a code point to the code units of its mapping.
\<close>

definition is_lead :: "code_unit \<Rightarrow> bool" where
  "is_lead u = (0xD800 \<le> u \<and> u \<le> 0xDBFF)"

definition is_trail :: "code_unit \<Rightarrow> bool" where
  "is_trail u = (0xDC00 \<le> u \<and> u \<le> 0xDFFF)"

fun code_points :: "ustring \<Rightarrow> ustring list" where
  "code_points (u # v # s) =
     (if is_lead u \<and> is_trail v then [u, v] # code_points s else [u] # code_points (v # s))"
| "code_points [u] = [[u]]"
| "code_points [] = []"

definition upper_unit :: "code_unit \<Rightarrow> code_unit" where
  "upper_unit u =
     (case map_of (zip (utf16 lower_letters) (utf16 upper_letters)) u of Some v \<Rightarrow> v | None \<Rightarrow> u)"

definition upper_point :: "(ustring \<Rightarrow> ustring) \<Rightarrow> ustring \<Rightarrow> ustring" where
  "upper_point ucd p =
     (case p of
        [u] \<Rightarrow> if u < 0x80 then [upper_unit u] else if is_white_space u then [u] else ucd p
      | _ \<Rightarrow> ucd p)"

definition js_toUpperCase :: "(ustring \<Rightarrow> ustring) \<Rightarrow> ustring \<Rightarrow> ustring" where
  "js_toUpperCase ucd s = concat (map (upper_point ucd) (code_points s))"

section \<open>The backend as the front end sees it: frontend/src/api.ts\<close>

text \<open>
  A thrown JavaScript error has a name and a message. \<open>e?.message || String(e)\<close> is the
  message when it is not empty and the error's string form otherwise.
\<close>

datatype js_error = JsError string string

fun error_message :: "js_error \<Rightarrow> string" where
  "error_message (JsError n m) = m"

fun String_of_error :: "js_error \<Rightarrow> string" where
  "String_of_error (JsError n m) = (if m = [] then n else n @ '': '' @ m)"

definition message_or_String :: "js_error \<Rightarrow> string" where
  "message_or_String e = (if error_message e \<noteq> [] then error_message e else String_of_error e)"

text \<open>
  A request names its path below the backend's base URL; a POST carries the fields of its
  JSON body, as bytes (\<open>Post\<close>, the registration panel) or as code units (\<open>PostUtf16\<close>, the
  customer entry points, which send what the user entered). What \<open>fetch\<close> gives back is
  the environment's choice: the promise rejects (network fault), or a response arrives
  with a status, a text body and the outcome of \<open>res.json()\<close>. \<open>fetchJSON\<close> throws on
  every status outside 200..299.
\<close>

datatype request =
    Get string
  | Post string "(string \<times> string) list"
  | PostUtf16 string "(string \<times> ustring) list"

datatype 'a http_result = Rejected js_error | Responded nat string "js_error + 'a"

definition fetchJSON :: "'a http_result \<Rightarrow> js_error + 'a" where
  "fetchJSON r =
     (case r of
        Rejected e \<Rightarrow> Inl e
      | Responded st body js \<Rightarrow>
          if \<not> (200 \<le> st \<and> st \<le> 299)
          then Inl (JsError ''Error'' (''HTTP_'' @ string_of_nat st @ '': '' @ body))
          else js)"

text \<open>
  What a handler does to the world outside its component state: a request to the backend,
  an \<open>alert\<close>, the transaction \<open>contract.methods.uploadProduct(id, name, color,
  material, price, year).send({ from })\<close> handed to the wallet (with the sender last), and
  \<open>onQr\<close> called with the QR image of a URL and the product id.
\<close>

datatype effect =
    Sent request
  | Alert string
  | Upload string string string string int int string
  | OnQr string string

record Verdict =
  status :: string
  reason :: string

record VerifyResponse =
  success :: bool
  product :: "(string \<times> string) list"
  verdict :: Verdict

section \<open>Customer verification: frontend/src/CustomerVerify.tsx and src/CustomerApp.tsx\<close>

record CustomerVerify =
  cv_code :: ustring
  cv_busy :: bool
  cv_result :: "VerifyResponse option"
  cv_error :: "string option"

definition cv_onChange :: "(ustring \<Rightarrow> ustring) \<Rightarrow> ustring \<Rightarrow> CustomerVerify \<Rightarrow> CustomerVerify" where
  "cv_onChange ucd v st = st\<lparr>cv_code := js_toUpperCase ucd v\<rparr>"

definition six_characters_message :: string where
  "six_characters_message =
     ''Please enter the 6 characters printed on your V'' @ [CHR 0xC3, CHR 0xA9] @ ''rit''
       @ [CHR 0xC3, CHR 0xA9] @ '' Sauvage card.''"

definition onVerify ::
  "ustring \<Rightarrow> (request \<Rightarrow> VerifyResponse http_result) \<Rightarrow> CustomerVerify \<Rightarrow> CustomerVerify \<times> effect list"
where
  "onVerify productId net st =
     (let trimmed = js_trim (cv_code st) in
      if length trimmed \<noteq> 6 then (st\<lparr>cv_error := Some six_characters_message\<rparr>, [])
      else
        let req = PostUtf16 ''/customer-verify'' [(''product_id'', productId), (''short_code'', trimmed)];
            st1 = st\<lparr>cv_busy := True, cv_error := None, cv_result := None\<rparr>
        in case fetchJSON (net req) of
             Inr data \<Rightarrow> (st1\<lparr>cv_result := Some data, cv_busy := False\<rparr>, [Sent req])
           | Inl e \<Rightarrow>
               (st1\<lparr>cv_error := Some ''Unable to verify right now. Please try again in a moment.'',
                    cv_busy := False\<rparr>, [Sent req]))"

record CustomerApp =
  ca_productId :: ustring
  ca_shortCode :: ustring
  ca_result :: "VerifyResponse option"
  ca_busy :: bool
  ca_errorMsg :: "string option"

definition setProductId :: "ustring \<Rightarrow> CustomerApp \<Rightarrow> CustomerApp" where
  "setProductId v st = st\<lparr>ca_productId := v\<rparr>"

text \<open>
  The short-code field of CustomerApp.tsx is an \<open>input\<close> with \<open>maxLength={8}\<close>: of what the
  user types or pastes into the empty field the browser keeps the first 8 code units,
  and that is the value the change handler sees. The field of CustomerVerify.tsx has no
  such limit, and its handler sees the text as entered.
\<close>

definition maxLength :: "nat \<Rightarrow> ustring \<Rightarrow> ustring" where
  "maxLength n entered = take n entered"

definition ca_onChange :: "(ustring \<Rightarrow> ustring) \<Rightarrow> ustring \<Rightarrow> CustomerApp \<Rightarrow> CustomerApp" where
  "ca_onChange ucd entered st = st\<lparr>ca_shortCode := js_toUpperCase ucd (maxLength 8 entered)\<rparr>"

definition doVerify ::
  "(request \<Rightarrow> VerifyResponse http_result) \<Rightarrow> CustomerApp \<Rightarrow> CustomerApp \<times> effect list"
where
  "doVerify net st =
     (let pid = js_trim (ca_productId st); code = js_trim (ca_shortCode st) in
      if pid = [] \<or> code = []
      then (st, [Alert ''Please enter both Authentication Code and Final 6 Digits.''])
      else
        let req = PostUtf16 ''/customer-verify'' [(''product_id'', pid), (''short_code'', code)];
            st1 = st\<lparr>ca_busy := True, ca_result := None, ca_errorMsg := None\<rparr>
        in case fetchJSON (net req) of
             Inr data \<Rightarrow> (st1\<lparr>ca_result := Some data, ca_busy := False\<rparr>, [Sent req])
           | Inl e \<Rightarrow> (st1\<lparr>ca_errorMsg := Some (message_or_String e), ca_busy := False\<rparr>, [Sent req]))"

text \<open>
  Two texts differ only in letter case when they agree after mapping \<open>A\<close>..\<open>Z\<close> to
  \<open>a\<close>..\<open>z\<close>. A short code as the registry issues it is made of upper-case letters and
  digits.
\<close>

definition lower_unit :: "code_unit \<Rightarrow> code_unit" where
  "lower_unit u =
     (case map_of (zip (utf16 upper_letters) (utf16 lower_letters)) u of Some v \<Rightarrow> v | None \<Rightarrow> u)"

definition same_up_to_case :: "ustring \<Rightarrow> ustring \<Rightarrow> bool" where
  "same_up_to_case a b = (map lower_unit a = map lower_unit b)"

definition is_code_char :: "code_unit \<Rightarrow> bool" where
  "is_code_char u = (u \<in> set (utf16 (upper_letters @ ''0123456789'')))"

section \<open>Admin verification: src/VerifyPanel.tsx\<close>

text \<open>
  On code units, \<open>encodeURIComponent\<close> keeps the unreserved characters, writes every other
  code point as the bytes of its UTF-8 encoding, each as \<open>%XX\<close>, and throws a URIError
  (its message is the engine's) on a surrogate that has no partner. Its result is ASCII.
\<close>

definition uri_unreserved_chars :: string where
  "uri_unreserved_chars = upper_letters @ lower_letters @ ''0123456789'' @ ''-_.!~*()'' @ [CHR 0x27]"

definition unreserved_char :: "code_unit \<Rightarrow> char option" where
  "unreserved_char u = map_of (zip (utf16 uri_unreserved_chars) uri_unreserved_chars) u"

definition utf8_octets :: "nat \<Rightarrow> nat list" where
  "utf8_octets v =
     (if v < 0x80 then [v]
      else if v < 0x800 then [0xC0 + v div 0x40, 0x80 + v mod 0x40]
      else if v < 0x10000 then [0xE0 + v div 0x1000, 0x80 + v div 0x40 mod 0x40, 0x80 + v mod 0x40]
      else [0xF0 + v div 0x40000, 0x80 + v div 0x1000 mod 0x40, 0x80 + v div 0x40 mod 0x40,
            0x80 + v mod 0x40])"

definition percent_encoded :: "nat \<Rightarrow> string" where
  "percent_encoded v =
     concat (map (\<lambda>b. [CHR ''%'', hex_digit (b div 16), hex_digit (b mod 16)]) (utf8_octets v))"

definition URIError :: js_error where
  "URIError = JsError ''URIError'' ''URI malformed''"

definition followed_by :: "string \<Rightarrow> js_error + string \<Rightarrow> js_error + string" where
  "followed_by a r = (case r of Inl e \<Rightarrow> Inl e | Inr b \<Rightarrow> Inr (a @ b))"

fun js_encodeURIComponent :: "ustring \<Rightarrow> js_error + string" where
  "js_encodeURIComponent [] = Inr []"
| "js_encodeURIComponent (u # s) =
     (case unreserved_char u of
        Some c \<Rightarrow> followed_by [c] (js_encodeURIComponent s)
      | None \<Rightarrow>
          if is_trail u then Inl URIError
          else if is_lead u then
            (case s of
               [] \<Rightarrow> Inl URIError
             | v # t \<Rightarrow>
                 if is_trail v
                 then followed_by
                        (percent_encoded ((unat u - 0xD800) * 0x400 + (unat v - 0xDC00) + 0x10000))
                        (js_encodeURIComponent t)
                 else Inl URIError)
          else followed_by (percent_encoded (unat u)) (js_encodeURIComponent s))"

record VerifyPanel =
  vp_pid :: ustring
  vp_out :: "VerifyResponse option"
  vp_history :: "VerifyResponse list"
  vp_busy :: bool
  vp_errorMsg :: "string option"

text \<open>The response \<open>go\<close> makes up in its \<open>catch\<close>; the dash of its reason is U+2014.\<close>

definition fakeResponse :: VerifyResponse where
  "fakeResponse =
     \<lparr>success = False, product = [],
      verdict = \<lparr>status = ''fake'',
                 reason = ''network_or_server_error '' @ [CHR 0xE2, CHR 0x80, CHR 0x94]
                            @ '' unable to verify''\<rparr>\<rparr>"

text \<open>
  \<open>go\<close> builds the URL before its \<open>try\<close>: an error of \<open>encodeURIComponent\<close> leaves \<open>go\<close>
  uncaught, after \<open>busy\<close> was set. The third component of the result is the error that
  leaves \<open>go\<close>, if any.
\<close>

definition go ::
  "(request \<Rightarrow> VerifyResponse http_result) \<Rightarrow> VerifyPanel
     \<Rightarrow> VerifyPanel \<times> effect list \<times> js_error option"
where
  "go net st =
     (let trimmed = js_trim (vp_pid st) in
      if trimmed = [] then (st, [], None)
      else
        let st1 = st\<lparr>vp_busy := True, vp_out := None, vp_errorMsg := None\<rparr>
        in case js_encodeURIComponent trimmed of
             Inl e \<Rightarrow> (st1, [], Some e)
           | Inr encoded \<Rightarrow>
               (let req = Get (''/verify/'' @ encoded)
                in case fetchJSON (net req) of
                     Inr data \<Rightarrow>
                       (st1\<lparr>vp_out := Some data, vp_history := data # vp_history st1,
                            vp_busy := False\<rparr>,
                        [Sent req], None)
                   | Inl e \<Rightarrow>
                       (st1\<lparr>vp_errorMsg := Some (message_or_String e), vp_out := Some fakeResponse,
                            vp_history := fakeResponse # vp_history st1, vp_busy := False\<rparr>,
                        [Sent req], None)))"

section \<open>Artifact resolution: frontend/src/useContract.ts and src/useContract.ts\<close>

text \<open>
  The artifact is the JSON the backend serves at \<open>/artifact\<close>: an interface description
  (opaque here, kept as its text) and \<open>networks\<close>, an object keyed by the network id in
  decimal whose entries hold an address. A missing property is \<open>None\<close>, and so is an
  interface or an entry that JavaScript takes for false (\<open>null\<close>, \<open>false\<close>, \<open>0\<close>, the empty
  string); an address is truthy when it is there and not empty. The network id is what
  the connected provider reports.

  Both files end in \<open>new web3.eth.Contract(artifact.abi, address)\<close>. The constructor is
  the library's: it throws when it is given no interface and when the text is not an
  address, and the instance it returns holds the interface and the address in the
  library's own form. It is the parameter \<open>new_Contract\<close>, from the interface and the
  address to the instance or to the error thrown.
\<close>

record network_entry =
  address :: "string option"

record ContractArtifact =
  abi :: "string option"
  networks :: "(string \<rightharpoonup> network_entry) option"

record Contract =
  c_abi :: "string option"
  c_address :: string

definition getArtifact :: "(request \<Rightarrow> 'a http_result) \<Rightarrow> js_error + 'a" where
  "getArtifact net = fetchJSON (net (Get ''/artifact''))"

text \<open>\<open>artifact.networks?.[key]?.address\<close>\<close>

definition network_address :: "ContractArtifact \<Rightarrow> string \<Rightarrow> string option" where
  "network_address a key =
     (case networks a of
        None \<Rightarrow> None
      | Some nets \<Rightarrow> (case nets key of None \<Rightarrow> None | Some e \<Rightarrow> address e))"

definition truthy :: "string option \<Rightarrow> bool" where
  "truthy v = (case v of None \<Rightarrow> False | Some t \<Rightarrow> t \<noteq> [])"

text \<open>
  frontend/src/useContract.ts. A number and its decimal string name the same property, so
  both operands of \<open>||\<close> read the same entry. Reading \<open>networks\<close> of a \<open>null\<close> artifact is
  a TypeError (its message is the engine's).
\<close>

definition loadContract ::
  "(string option \<Rightarrow> string \<Rightarrow> js_error + Contract)
     \<Rightarrow> (request \<Rightarrow> ContractArtifact option http_result) \<Rightarrow> nat \<Rightarrow> js_error + Contract"
where
  "loadContract new_Contract net netId =
     (case getArtifact net of
        Inl e \<Rightarrow> Inl e
      | Inr None \<Rightarrow> Inl (JsError ''TypeError'' ''Cannot read properties of null'')
      | Inr (Some artifact) \<Rightarrow>
          (let address =
                 (if truthy (network_address artifact (string_of_nat netId))
                  then network_address artifact (string_of_nat netId)
                  else network_address artifact (string_of_nat netId))
           in case address of
                None \<Rightarrow> Inl (JsError ''Error''
                           (''Contract not deployed for network '' @ string_of_nat netId @ ''.''))
              | Some t \<Rightarrow>
                  if t = []
                  then Inl (JsError ''Error''
                           (''Contract not deployed for network '' @ string_of_nat netId @ ''.''))
                  else new_Contract (abi artifact) t))"

text \<open>
  src/useContract.ts (unnamed/part_004). An artifact without an interface is refused. An
  entry for the provider's network wins, whatever its address; with no such entry the
  entry \<open>31337\<close> is taken when the artifact has one.
\<close>

definition loadContract_part_004 ::
  "(string option \<Rightarrow> string \<Rightarrow> js_error + Contract)
     \<Rightarrow> (request \<Rightarrow> ContractArtifact option http_result) \<Rightarrow> nat \<Rightarrow> js_error + Contract"
where
  "loadContract_part_004 new_Contract net networkId =
     (case getArtifact net of
        Inl e \<Rightarrow> Inl e
      | Inr None \<Rightarrow> Inl (JsError ''Error'' ''Invalid contract artifact from backend.'')
      | Inr (Some artifact) \<Rightarrow>
          if abi artifact = None
          then Inl (JsError ''Error'' ''Invalid contract artifact from backend.'')
          else
            (let address =
                   (case networks artifact of
                      None \<Rightarrow> None
                    | Some nets \<Rightarrow>
                        (case nets (string_of_nat networkId) of
                           Some e \<Rightarrow> address e
                         | None \<Rightarrow> (case nets ''31337'' of Some e \<Rightarrow> address e | None \<Rightarrow> None)))
             in case address of
                  None \<Rightarrow> Inl (JsError ''Error''
                             (''No contract address found in artifact for network ''
                                @ string_of_nat networkId @ ''.''))
                | Some t \<Rightarrow>
                    if t = []
                    then Inl (JsError ''Error''
                             (''No contract address found in artifact for network ''
                                @ string_of_nat networkId @ ''.''))
                    else new_Contract (abi artifact) t))"

section \<open>The backend's registry and verification engine\<close>

text \<open>
  The backend that answers \<open>/codes/register\<close> and \<open>/customer-verify\<close> is called by the
  front ends above, but its code is not among the repository's files at hand. Its two
  components are therefore written down from sections 4.3 and 4.4 of the specification.
\<close>

text \<open>
  Modelled from the spec: the errors of the Short-Code Registry (section 4.3, section 7).
  The backend's registry is missing. \<open>GenerationExhausted\<close> stands for a generator that
  gave no unused code within the draws it was allowed.
\<close>

datatype RegistryError = AlreadyRegistered | GenerationExhausted

text \<open>
  Modelled from the spec: the registry's storage, "persistent mapping from fingerprint to
  a unique short code", as the list of its entries, newest first. The backend's store is
  missing.
\<close>

type_synonym 'f registry = "('f \<times> string) list"

text \<open>Modelled from the spec: \<open>lookup(fingerprint) -> Option<ShortCode>\<close>, a pure read.\<close>

definition lookup :: "'f registry \<Rightarrow> 'f \<Rightarrow> string option" where
  "lookup reg f = map_of reg f"

text \<open>Modelled from the spec: \<open>lookupByCode(code) -> Option<Fingerprint>\<close>, a pure read.\<close>

definition lookupByCode :: "'f registry \<Rightarrow> string \<Rightarrow> 'f option" where
  "lookupByCode reg c = map_of (map (\<lambda>(f, d). (d, f)) reg) c"

text \<open>
  Modelled from the spec: \<open>register(fingerprint) -> ShortCode\<close> "mints and persists a
  fresh code", "fails with AlreadyRegistered if a code already exists for this
  fingerprint", with "a registry-wide uniqueness check on the generated code before
  commit" and a retry on collision. The generator's successive draws are the argument
  \<open>draws\<close>; the first draw no entry holds is taken.
\<close>

definition register :: "string list \<Rightarrow> 'f \<Rightarrow> 'f registry \<Rightarrow> RegistryError + (string \<times> 'f registry)" where
  "register draws f reg =
     (if lookup reg f \<noteq> None then Inl AlreadyRegistered
      else case find (\<lambda>c. lookupByCode reg c = None) draws of
             None \<Rightarrow> Inl GenerationExhausted
           | Some c \<Rightarrow> Inr (c, (f, c) # reg))"

text \<open>
  Modelled from the spec: the registry over time, a sequence of \<open>register\<close> calls applied
  one after the other (mutations are serialised, section 5); a failed call leaves the
  registry as it was.
\<close>

fun run_registrations :: "'f registry \<Rightarrow> (string list \<times> 'f) list \<Rightarrow> 'f registry" where
  "run_registrations reg [] = reg"
| "run_registrations reg ((draws, f) # rest) =
     (case register draws f reg of
        Inl e \<Rightarrow> run_registrations reg rest
      | Inr (c, reg') \<Rightarrow> run_registrations reg' rest)"

text \<open>
  Modelled from the spec: the Ledger Reader port, \<open>readProduct(address, fingerprint) ->
  ProductAttributes | NotFound\<close>, with the transient read failure of section 4.4 as a third
  outcome. The backend's ledger client is missing.
\<close>

datatype 'a ledger_read = ReadFault | NotFound | Found 'a

text \<open>Modelled from the spec: the Verdict of section 3, with the product echoed when authentic.\<close>

record engine_verdict =
  ev_status :: string
  ev_reason :: string
  ev_product :: "(string \<times> string \<times> string \<times> uint256 \<times> uint256) option"

text \<open>Modelled from the spec: step 1 of section 4.4, "Normalize presentedCode (trim, uppercase)".\<close>

definition normalize :: "string \<Rightarrow> string" where
  "normalize presented = toUpperCase (trim presented)"

text \<open>
  Modelled from the spec: \<open>verify(fingerprint, presentedCode) -> Verdict\<close>, steps 1 to 5 of
  section 4.4 in their order, and the distinct outcome of a failed ledger read. The
  backend's verification code is missing.
\<close>

definition verify ::
  "'f registry \<Rightarrow> ('f \<Rightarrow> (string \<times> string \<times> string \<times> uint256 \<times> uint256) ledger_read)
     \<Rightarrow> 'f \<Rightarrow> string \<Rightarrow> engine_verdict"
where
  "verify reg readProduct f presentedCode =
     (let code = normalize presentedCode in
      case lookup reg f of
        None \<Rightarrow> \<lparr>ev_status = ''fake'', ev_reason = ''no_registration'', ev_product = None\<rparr>
      | Some stored \<Rightarrow>
          if toUpperCase stored \<noteq> code
          then \<lparr>ev_status = ''fake'', ev_reason = ''code_mismatch'', ev_product = None\<rparr>
          else
            (case readProduct f of
               ReadFault \<Rightarrow>
                 \<lparr>ev_status = ''fake'', ev_reason = ''verification_unavailable'', ev_product = None\<rparr>
             | NotFound \<Rightarrow>
                 \<lparr>ev_status = ''fake'', ev_reason = ''ledger_record_missing'', ev_product = None\<rparr>
             | Found p \<Rightarrow>
                 if p = ([], [], [], 0, 0)
                 then \<lparr>ev_status = ''fake'', ev_reason = ''ledger_record_missing'', ev_product = None\<rparr>
                 else \<lparr>ev_status = ''authentic'', ev_reason = ''on_chain_and_code_match'',
                       ev_product = Some p\<rparr>))"

text \<open>
  Modelled from the spec: a Ledger Reader that reads the contract of this repository:
  \<open>getProduct\<close> always answers, with the zero record for a key never written.
\<close>

definition contract_reader ::
  "FakeProdDetector \<Rightarrow> bytes32 \<Rightarrow> (string \<times> string \<times> string \<times> uint256 \<times> uint256) ledger_read"
where
  "contract_reader s i = Found (getProduct s i)"

text \<open>The registry invariant: one entry per fingerprint, and no code held twice.\<close>

definition registry_inv :: "'f registry \<Rightarrow> bool" where
  "registry_inv reg = (distinct (map fst reg) \<and> distinct (map snd reg))"

section \<open>Keccak-256\<close>

text \<open>
  Modelled from the spec: the hash of section 4.1, "the same cryptographic hash function
  ... used by the ledger contract's own key derivation", which the front ends name as
  Solidity's keccak256. It is computed by the library \<open>web3\<close>, which is not part of the
  repository; what follows is Keccak-256 as published: the permutation Keccak-f[1600] in
  24 rounds, rate 136 bytes, padding \<open>0x01 .. 0x80\<close>, the first 32 bytes of the state as
  digest. The lemmas \<open>keccak256_empty\<close> and \<open>keccak256_abc\<close> below check the model
  against the two known answers.

  A byte is a \<open>char\<close>, whose constructor lists its bits from the least significant. A
  lane is 8 bytes, least significant first; the state is 5 rows (\<open>y\<close>) of 5 lanes (\<open>x\<close>).
\<close>

type_synonym lane = "char list"

fun bxor :: "bool \<Rightarrow> bool \<Rightarrow> bool" where
  "bxor True b = (\<not> b)"
| "bxor False b = b"

fun bandn :: "bool \<Rightarrow> bool \<Rightarrow> bool" where
  "bandn True b = False"
| "bandn False b = b"

fun xor_char :: "char \<Rightarrow> char \<Rightarrow> char" where
  "xor_char (Char a0 a1 a2 a3 a4 a5 a6 a7) (Char b0 b1 b2 b3 b4 b5 b6 b7) =
     Char (bxor a0 b0) (bxor a1 b1) (bxor a2 b2) (bxor a3 b3) (bxor a4 b4) (bxor a5 b5) (bxor a6 b6) (bxor a7 b7)"

fun andn_char :: "char \<Rightarrow> char \<Rightarrow> char" where
  "andn_char (Char a0 a1 a2 a3 a4 a5 a6 a7) (Char b0 b1 b2 b3 b4 b5 b6 b7) =
     Char (bandn a0 b0) (bandn a1 b1) (bandn a2 b2) (bandn a3 b3) (bandn a4 b4) (bandn a5 b5) (bandn a6 b6) (bandn a7 b7)"

definition xor_lane :: "lane \<Rightarrow> lane \<Rightarrow> lane" where
  "xor_lane a b = map2 xor_char a b"

definition andn_lane :: "lane \<Rightarrow> lane \<Rightarrow> lane" where
  "andn_lane a b = map2 andn_char a b"

fun bits_of_char :: "char \<Rightarrow> bool list" where
  "bits_of_char (Char b0 b1 b2 b3 b4 b5 b6 b7) = [b0, b1, b2, b3, b4, b5, b6, b7]"

fun char_of_bits :: "bool list \<Rightarrow> char" where
  "char_of_bits (b0 # b1 # b2 # b3 # b4 # b5 # b6 # b7 # bs) = Char b0 b1 b2 b3 b4 b5 b6 b7"
| "char_of_bits _ = CHR 0x00"

text \<open>
  Rotation of a lane towards the more significant end by \<open>r\<close> bits: whole bytes first,
  then \<open>r mod 8\<close> bits, each byte taking the top bits of the byte below it.
\<close>

definition shift_in :: "nat \<Rightarrow> char \<Rightarrow> char \<Rightarrow> char" where
  "shift_in k p c = char_of_bits (drop (8 - k) (bits_of_char p) @ take (8 - k) (bits_of_char c))"

definition rotl :: "nat \<Rightarrow> lane \<Rightarrow> lane" where
  "rotl r l =
     (let bs = drop (8 - r div 8) l @ take (8 - r div 8) l
      in map2 (shift_in (r mod 8)) (last bs # butlast bs) bs)"

text \<open>The 24 round constants, each as the 8 bytes of its lane.\<close>

definition round_constants :: "lane list" where
  "round_constants =
   [[CHR 0x01, CHR 0x00, CHR 0x00, CHR 0x00, CHR 0x00, CHR 0x00, CHR 0x00, CHR 0x00],
    [CHR 0x82, CHR 0x80, CHR 0x00, CHR 0x00, CHR 0x00, CHR 0x00, CHR 0x00, CHR 0x00],
    [CHR 0x8A, CHR 0x80, CHR 0x00, CHR 0x00, CHR 0x00, CHR 0x00, CHR 0x00, CHR 0x80],
    [CHR 0x00, CHR 0x80, CHR 0x00, CHR 0x80, CHR 0x00, CHR 0x00, CHR 0x00, CHR 0x80],
    [CHR 0x8B, CHR 0x80, CHR 0x00, CHR 0x00, CHR 0x00, CHR 0x00, CHR 0x00, CHR 0x00],
    [CHR 0x01, CHR 0x00, CHR 0x00, CHR 0x80, CHR 0x00, CHR 0x00, CHR 0x00, CHR 0x00],
    [CHR 0x81, CHR 0x80, CHR 0x00, CHR 0x80, CHR 0x00, CHR 0x00, CHR 0x00, CHR 0x80],
    [CHR 0x09, CHR 0x80, CHR 0x00, CHR 0x00, CHR 0x00, CHR 0x00, CHR 0x00, CHR 0x80],
    [CHR 0x8A, CHR 0x00, CHR 0x00, CHR 0x00, CHR 0x00, CHR 0x00, CHR 0x00, CHR 0x00],
    [CHR 0x88, CHR 0x00, CHR 0x00, CHR 0x00, CHR 0x00, CHR 0x00, CHR 0x00, CHR 0x00],
    [CHR 0x09, CHR 0x80, CHR 0x00, CHR 0x80, CHR 0x00, CHR 0x00, CHR 0x00, CHR 0x00],
    [CHR 0x0A, CHR 0x00, CHR 0x00, CHR 0x80, CHR 0x00, CHR 0x00, CHR 0x00, CHR 0x00],
    [CHR 0x8B, CHR 0x80, CHR 0x00, CHR 0x80, CHR 0x00, CHR 0x00, CHR 0x00, CHR 0x00],
    [CHR 0x8B, CHR 0x00, CHR 0x00, CHR 0x00, CHR 0x00, CHR 0x00, CHR 0x00, CHR 0x80],
    [CHR 0x89, CHR 0x80, CHR 0x00, CHR 0x00, CHR 0x00, CHR 0x00, CHR 0x00, CHR 0x80],
    [CHR 0x03, CHR 0x80, CHR 0x00, CHR 0x00, CHR 0x00, CHR 0x00, CHR 0x00, CHR 0x80],
    [CHR 0x02, CHR 0x80, CHR 0x00, CHR 0x00, CHR 0x00, CHR 0x00, CHR 0x00, CHR 0x80],
    [CHR 0x80, CHR 0x00, CHR 0x00, CHR 0x00, CHR 0x00, CHR 0x00, CHR 0x00, CHR 0x80],
    [CHR 0x0A, CHR 0x80, CHR 0x00, CHR 0x00, CHR 0x00, CHR 0x00, CHR 0x00, CHR 0x00],
    [CHR 0x0A, CHR 0x00, CHR 0x00, CHR 0x80, CHR 0x00, CHR 0x00, CHR 0x00, CHR 0x80],
    [CHR 0x81, CHR 0x80, CHR 0x00, CHR 0x80, CHR 0x00, CHR 0x00, CHR 0x00, CHR 0x80],
    [CHR 0x80, CHR 0x80, CHR 0x00, CHR 0x00, CHR 0x00, CHR 0x00, CHR 0x00, CHR 0x80],
    [CHR 0x01, CHR 0x00, CHR 0x00, CHR 0x80, CHR 0x00, CHR 0x00, CHR 0x00, CHR 0x00],
    [CHR 0x08, CHR 0x80, CHR 0x00, CHR 0x80, CHR 0x00, CHR 0x00, CHR 0x00, CHR 0x80]]"

text \<open>
  The steps of a round. \<open>theta\<close> adds to every lane the parities of two neighbouring
  columns; \<open>rho_pi\<close> moves the lane at \<open>x + 5 y\<close> to \<open>y + 5 ((2 x + 3 y) mod 5)\<close> and rotates
  it by its offset (the table pairs each target with its source and the source's offset);
  \<open>chi\<close> works along a row; \<open>iota\<close> adds the round constant to the first lane.
\<close>

definition theta_D :: "lane list \<Rightarrow> lane list" where
  "theta_D C = map2 xor_lane (last C # butlast C) (map (rotl 1) (rotate1 C))"

definition theta :: "lane list list \<Rightarrow> lane list list" where
  "theta A = map (map2 xor_lane (theta_D (foldl (map2 xor_lane) (hd A) (tl A)))) A"

definition rho_pi_table :: "(nat \<times> nat) list" where
  "rho_pi_table = map (\<lambda>j. let s = (j mod 5 + 3 * (j div 5)) mod 5 + 5 * (j mod 5) in
     (s, [0,1,62,28,27,36,44,6,55,20,3,10,43,25,39,41,45,15,21,8,18,2,61,56,14] ! s)) [0..<25]"

fun rows_of :: "nat \<Rightarrow> 'a list \<Rightarrow> 'a list list" where
  "rows_of 0 xs = []"
| "rows_of (Suc k) xs = take 5 xs # rows_of k (drop 5 xs)"

definition rho_pi :: "(nat \<times> nat) list \<Rightarrow> lane list list \<Rightarrow> lane list list" where
  "rho_pi tab A = rows_of 5 (map (\<lambda>(s, r). rotl r (concat A ! s)) tab)"

definition chi_row :: "lane list \<Rightarrow> lane list" where
  "chi_row r = map2 xor_lane r (map2 andn_lane (rotate1 r) (rotate1 (rotate1 r)))"

definition iota :: "lane \<Rightarrow> lane list list \<Rightarrow> lane list list" where
  "iota c A = (case A of (a # as) # rs \<Rightarrow> (xor_lane a c # as) # rs | _ \<Rightarrow> A)"

definition keccak_round :: "(nat \<times> nat) list \<Rightarrow> lane list list \<Rightarrow> lane \<Rightarrow> lane list list" where
  "keccak_round tab A c = iota c (map chi_row (rho_pi tab (theta A)))"

definition keccak_f :: "lane list list \<Rightarrow> lane list list" where
  "keccak_f A = foldl (keccak_round rho_pi_table) A round_constants"

text \<open>Padding to whole blocks of 136 bytes, absorbing block by block, and the digest.\<close>

fun lanes_of :: "nat \<Rightarrow> string \<Rightarrow> lane list" where
  "lanes_of 0 bs = []"
| "lanes_of (Suc k) bs = take 8 bs # lanes_of k (drop 8 bs)"

definition pad :: "string \<Rightarrow> string" where
  "pad m = (let z = 135 - length m mod 136 in
      if z = 0 then m @ [CHR 0x81] else m @ [CHR 0x01] @ replicate (z - 1) (CHR 0x00) @ [CHR 0x80])"

function absorb :: "lane list list \<Rightarrow> string \<Rightarrow> lane list list" where
  "absorb A bs = (if length bs < 136 then A
      else absorb (keccak_f (map2 (map2 xor_lane) A
                     (rows_of 5 (lanes_of 25 (take 136 bs @ replicate 64 (CHR 0x00))))))
                  (drop 136 bs))"
  by pat_completeness auto

termination
  by (relation "measure (\<lambda>(A, bs). length bs)") auto

declare absorb.simps [simp del]

definition keccak256 :: "string \<Rightarrow> string" where
  "keccak256 m = take 32 (concat (concat
      (absorb (replicate 5 (replicate 5 (replicate 8 (CHR 0x00)))) (pad m))))"

text \<open>The shape every state of the sponge has.\<close>

definition lanes8 :: "lane list \<Rightarrow> bool" where
  "lanes8 r = list_all (\<lambda>l. length l = 8) r"

definition state_shape :: "lane list list \<Rightarrow> bool" where
  "state_shape A = (length A = 5 \<and> list_all (\<lambda>r. length r = 5 \<and> lanes8 r) A)"


section \<open>The packed hash of web3: \<open>web3.utils.soliditySha3\<close>\<close>

text \<open>
  Modelled from the spec: section 4.1's "tightly-typed encoding ... concatenate ... then
  apply the hash", which both register functions obtain from \<open>web3.utils.soliditySha3\<close>.
  The library is not part of the repository. A \<open>string\<close> argument is packed as its bytes, a
  \<open>uint256\<close> argument as 32 bytes, most significant first; a value that is not a number,
  is negative or does not fit makes the library throw (the wording of its errors is not
  kept). The result is \<open>0x\<close> and the 64 hex digits of the digest; the library answers
  \<open>null\<close> instead when the digest is that of the empty input.
\<close>

definition SHA3_NULL :: string where
  "SHA3_NULL =
     [CHR 0xC5, CHR 0xD2, CHR 0x46, CHR 0x01, CHR 0x86, CHR 0xF7, CHR 0x23, CHR 0x3C,
      CHR 0x92, CHR 0x7E, CHR 0x7D, CHR 0xB2, CHR 0xDC, CHR 0xC7, CHR 0x03, CHR 0xC0,
      CHR 0xE5, CHR 0x00, CHR 0xB6, CHR 0x53, CHR 0xCA, CHR 0x82, CHR 0x27, CHR 0x3B,
      CHR 0x7B, CHR 0xFA, CHR 0xD8, CHR 0x04, CHR 0x5D, CHR 0x85, CHR 0xA4, CHR 0x70]"

text \<open>
  JavaScript numbers. The numbers of the register forms are integers, modelled by \<open>int\<close>
  (exact below \<open>2 ^ 53\<close>, where JavaScript's are), with \<open>None\<close> for \<open>NaN\<close>.
  \<open>parseInt(s, 10)\<close> skips leading white space, reads an optional sign and the longest run
  of digits, and is \<open>NaN\<close> without a digit. \<open>decimal_integer\<close> is how the library and
  \<open>Number\<close> read a plain decimal numeral, an optional minus sign and digits; a numeral
  in any other notation (fraction, exponent, hex) is outside the model and read as no
  integer.
\<close>

definition is_digit :: "char \<Rightarrow> bool" where
  "is_digit c = (c \<in> set ''0123456789'')"

definition digit_value :: "char \<Rightarrow> nat" where
  "digit_value c = of_char c - 48"

definition digits_value :: "string \<Rightarrow> nat" where
  "digits_value ds = foldl (\<lambda>a c. 10 * a + digit_value c) 0 ds"

definition parseInt :: "string \<Rightarrow> int option" where
  "parseInt s =
     (let t = dropWhile is_space s;
          neg = (t \<noteq> [] \<and> hd t = CHR ''-'');
          u = (if t \<noteq> [] \<and> (hd t = CHR ''-'' \<or> hd t = CHR ''+'') then tl t else t);
          ds = takeWhile is_digit u
      in if ds = [] then None
         else Some (if neg then - int (digits_value ds) else int (digits_value ds)))"

definition decimal_integer :: "string \<Rightarrow> int option" where
  "decimal_integer s =
     (if s \<noteq> [] \<and> list_all is_digit s then Some (int (digits_value s))
      else if s \<noteq> [] \<and> hd s = CHR ''-'' \<and> tl s \<noteq> [] \<and> list_all is_digit (tl s)
           then Some (- int (digits_value (tl s)))
      else None)"

text \<open>
  An argument \<open>{ type, value }\<close> of \<open>soliditySha3\<close>. The value of a \<open>uint256\<close> argument
  is the number the library reads from it: \<open>n.toString()\<close> is read back as \<open>n\<close>.
\<close>

datatype sol_arg = SolString string | SolUint256 "int option"

definition uint256_limit :: int where
  "uint256_limit = 2 ^ 256"

definition byte_of_int :: "int \<Rightarrow> char" where
  "byte_of_int n = Char (odd n) (odd (n div 2)) (odd (n div 4)) (odd (n div 8))
                        (odd (n div 16)) (odd (n div 32)) (odd (n div 64)) (odd (n div 128))"

fun be_bytes :: "nat \<Rightarrow> int \<Rightarrow> string" where
  "be_bytes 0 n = []"
| "be_bytes (Suc k) n = be_bytes k (n div 256) @ [byte_of_int (n mod 256)]"

definition uint256_bytes :: "int \<Rightarrow> string" where
  "uint256_bytes n = be_bytes 32 n"

definition solidityPack_arg :: "sol_arg \<Rightarrow> js_error + string" where
  "solidityPack_arg a =
     (case a of
        SolString t \<Rightarrow> Inr t
      | SolUint256 None \<Rightarrow> Inl (JsError ''Error'' ''Given value is not a number.'')
      | SolUint256 (Some n) \<Rightarrow>
          if n < 0 then Inl (JsError ''Error'' ''Supplied uint is negative'')
          else if uint256_limit \<le> n then Inl (JsError ''Error'' ''Supplied uint exceeds width: 256'')
          else Inr (uint256_bytes n))"

fun solidityPack :: "sol_arg list \<Rightarrow> js_error + string" where
  "solidityPack [] = Inr []"
| "solidityPack (a # as) =
     (case solidityPack_arg a of
        Inl e \<Rightarrow> Inl e
      | Inr b \<Rightarrow> (case solidityPack as of Inl e \<Rightarrow> Inl e | Inr bs \<Rightarrow> Inr (b @ bs)))"

definition hex_lower :: "string \<Rightarrow> string" where
  "hex_lower bs = concat (map (\<lambda>c. [''0123456789abcdef'' ! (of_char c div 16),
                                     ''0123456789abcdef'' ! (of_char c mod 16)]) bs)"

definition soliditySha3 :: "sol_arg list \<Rightarrow> js_error + string option" where
  "soliditySha3 args =
     (case solidityPack args of
        Inl e \<Rightarrow> Inl e
      | Inr bytes \<Rightarrow>
          (let d = keccak256 bytes in Inr (if d = SHA3_NULL then None else Some (''0x'' @ hex_lower d))))"

section \<open>Registration: frontend/src/RegisterPanel.tsx and unnamed/part_005\<close>

text \<open>
  \<open>a || b\<close> on strings; \<open>Number(s)\<close>; and the range check of the ABI encoder on a
  \<open>uint256\<close> parameter of \<open>uploadProduct\<close>.
\<close>

definition or_else :: "string \<Rightarrow> string \<Rightarrow> string" where
  "or_else a b = (if a \<noteq> [] then a else b)"

definition js_Number :: "string \<Rightarrow> int option" where
  "js_Number s = (if trim s = [] then Some 0 else decimal_integer (trim s))"

definition abi_uint256 :: "int option \<Rightarrow> js_error + int" where
  "abi_uint256 v =
     (case v of
        None \<Rightarrow> Inl (JsError ''Error'' ''invalid number value'')
      | Some n \<Rightarrow>
          if n < 0 \<or> uint256_limit \<le> n then Inl (JsError ''Error'' ''value out-of-bounds'') else Inr n)"

text \<open>The form state of both panels, and the answer of \<open>/codes/register\<close>.\<close>

record form =
  f_name :: string
  f_price :: string
  f_color :: string
  f_material :: string
  f_year :: string

record code_response =
  shortCode :: string

text \<open>
  What the surroundings give a call of \<open>register\<close>: whether \<open>window.ethereum\<close> exists; the
  accounts the wallet hands out (\<open>eth_requestAccounts\<close>, \<open>getAccounts\<close>); the calendar year
  and the Unix time in seconds of the clock; the outcome of \<open>loadContract(web3)\<close>; the
  error of the transaction, if it is not confirmed; the backend's answer to
  \<open>/codes/register\<close>; and \<open>PUBLIC_VERIFY_BASE\<close>.
\<close>

record register_env =
  has_wallet :: bool
  wallet_accounts :: "js_error + string list"
  current_year :: int
  now_seconds :: nat
  contract :: "js_error + Contract"
  send_error :: "js_error option"
  codes_register :: "request \<Rightarrow> code_response http_result"
  public_verify_base :: string

text \<open>
  frontend/src/RegisterPanel.tsx. The body of the \<open>try\<close> gives the effects it got to and
  the error it threw, if any. The locals \<open>price'\<close>, \<open>year'\<close> carry a prime where the name
  is a field of the contract's struct. The sixth hashed field is the time in seconds.
  \<open>uploadProduct\<close> refuses a \<open>null\<close> product id.
\<close>

record RegisterPanel =
  rp_form :: form
  rp_busy :: bool

definition register_try :: "register_env \<Rightarrow> string \<Rightarrow> form \<Rightarrow> effect list \<times> js_error option" where
  "register_try env account form =
     (case contract env of
        Inl e \<Rightarrow> ([], Some e)
      | Inr c \<Rightarrow>
          (case soliditySha3
                  [SolString (f_name form),
                   SolString (or_else (f_color form) []),
                   SolString (or_else (f_material form) []),
                   SolUint256 (decimal_integer (f_price form)),
                   SolUint256 (decimal_integer (or_else (f_year form) ''0'')),
                   SolUint256 (Some (int (now_seconds env)))] of
             Inl e \<Rightarrow> ([], Some e)
           | Inr None \<Rightarrow> ([], Some (JsError ''Error'' ''invalid bytes32 value''))
           | Inr (Some productId) \<Rightarrow>
               (case abi_uint256 (decimal_integer (f_price form)) of
                  Inl e \<Rightarrow> ([], Some e)
                | Inr price' \<Rightarrow>
                    (case abi_uint256 (if f_year form \<noteq> [] then js_Number (f_year form) else Some 0) of
                       Inl e \<Rightarrow> ([], Some e)
                     | Inr year' \<Rightarrow>
                         (let upload = Upload productId (f_name form) (or_else (f_color form) [])
                                         (or_else (f_material form) []) price' year' account
                          in case send_error env of
                               Some e \<Rightarrow> ([upload], Some e)
                             | None \<Rightarrow>
                                 ([upload,
                                   OnQr (public_verify_base env @ ''/?id='' @ productId) productId,
                                   Alert (''Registered. Product ID:'' @ [CHR 0x0A] @ productId)],
                                  None))))))"

definition RegisterPanel_register ::
  "register_env \<Rightarrow> string \<Rightarrow> RegisterPanel \<Rightarrow> RegisterPanel \<times> effect list"
where
  "RegisterPanel_register env account st =
     (if account = [] then (st, [Alert ''Connect MetaMask first''])
      else if f_name (rp_form st) = [] \<or> f_price (rp_form st) = []
      then (st, [Alert ''Name and price are required''])
      else if f_color (rp_form st) = [] \<or> f_material (rp_form st) = []
      then (st, [Alert ''Please select both color and material''])
      else
        (case register_try env account (rp_form st) of
           (effects, None) \<Rightarrow> (st\<lparr>rp_busy := False\<rparr>, effects)
         | (effects, Some e) \<Rightarrow>
             (st\<lparr>rp_busy := False\<rparr>,
              effects @ [Alert (or_else (error_message e) ''Transaction failed'')])))"

text \<open>
  The RegisterPanel of unnamed/part_005: the panel that also registers a short code.
  Step 2 of its \<open>register\<close> prepares the five fields, step 3 hashes them, steps 4 to 8
  submit the transaction, register the code and show the QR.
\<close>

record last_result =
  lr_productId :: "string option"
  lr_shortCode :: "string option"
  lr_error :: "string option"

record RegisterPanel_part_005 =
  rq_form :: form
  rq_busy :: bool
  rq_lastResult :: last_result

datatype try_outcome = Returned | Threw js_error | Done string string

definition prepare_fields ::
  "register_env \<Rightarrow> form \<Rightarrow> string \<times> string \<times> string \<times> int option \<times> int option"
where
  "prepare_fields env form =
     (let name' = trim (f_name form);
          color' = trim (f_color form);
          material' = trim (f_material form);
          rawPrice = filter is_digit (f_price form);
          price' = (if rawPrice \<noteq> [] then parseInt rawPrice else Some 0);
          year' = (if f_year form \<noteq> [] then parseInt (f_year form) else Some (current_year env))
      in (name', color', material', price', year'))"

definition submit_part_005 ::
  "register_env \<Rightarrow> string \<Rightarrow> string \<Rightarrow> string \<Rightarrow> string \<Rightarrow> string \<Rightarrow> int option \<Rightarrow> int option
     \<Rightarrow> effect list \<times> try_outcome"
where
  "submit_part_005 env sender idHex name' color' material' price' year' =
     (case contract env of
        Inl e \<Rightarrow> ([], Threw e)
      | Inr c \<Rightarrow>
          (case abi_uint256 price' of
             Inl e \<Rightarrow> ([], Threw e)
           | Inr p \<Rightarrow>
               (case abi_uint256 year' of
                  Inl e \<Rightarrow> ([], Threw e)
                | Inr y \<Rightarrow>
                    (let upload = Upload idHex name' color' material' p y sender;
                         req = Post ''/codes/register'' [(''product_id'', idHex)]
                     in case send_error env of
                          Some e \<Rightarrow> ([upload], Threw e)
                        | None \<Rightarrow>
                            (case fetchJSON (codes_register env req) of
                               Inl e \<Rightarrow> ([upload, Sent req], Threw e)
                             | Inr codeRes \<Rightarrow>
                                 ([upload, Sent req,
                                   OnQr (public_verify_base env @ ''?code=''
                                           @ encodeURIComponent (shortCode codeRes)) idHex],
                                  Done idHex (shortCode codeRes)))))))"

definition register_try_part_005 ::
  "register_env \<Rightarrow> string \<Rightarrow> form \<Rightarrow> effect list \<times> try_outcome"
where
  "register_try_part_005 env account form =
     (if \<not> has_wallet env
      then ([Alert ''MetaMask (or another Web3 wallet) is required.''], Returned)
      else
        (case wallet_accounts env of
           Inl e \<Rightarrow> ([], Threw e)
         | Inr accounts \<Rightarrow>
             (let sender = or_else account (case accounts of [] \<Rightarrow> [] | a # rest \<Rightarrow> a) in
              if sender = [] then ([], Threw (JsError ''Error'' ''No Ethereum account available.''))
              else
                (case prepare_fields env form of
                   (name', color', material', price', year') \<Rightarrow>
                     if name' = [] then ([Alert ''Please enter a Product / Model Name.''], Returned)
                     else
                       (case soliditySha3
                               [SolString name', SolString color', SolString material',
                                SolUint256 price', SolUint256 year'] of
                          Inl e \<Rightarrow> ([], Threw e)
                        | Inr None \<Rightarrow>
                            ([], Threw (JsError ''Error'' ''Failed to compute productId hash.''))
                        | Inr (Some idHex) \<Rightarrow>
                            submit_part_005 env sender idHex name' color' material' price' year')))))"

definition register_part_005 ::
  "register_env \<Rightarrow> string \<Rightarrow> RegisterPanel_part_005 \<Rightarrow> RegisterPanel_part_005 \<times> effect list"
where
  "register_part_005 env account st =
     (if rq_busy st then (st, [])
      else
        (case register_try_part_005 env account (rq_form st) of
           (effects, Returned) \<Rightarrow>
             (st\<lparr>rq_busy := False,
                 rq_lastResult := \<lparr>lr_productId = None, lr_shortCode = None, lr_error = None\<rparr>\<rparr>,
              effects)
         | (effects, Threw e) \<Rightarrow>
             (st\<lparr>rq_busy := False,
                 rq_lastResult := \<lparr>lr_productId = None, lr_shortCode = None,
                                    lr_error = Some (message_or_String e)\<rparr>\<rparr>,
              effects @ [Alert (''Failed to register product: '' @ message_or_String e)])
         | (effects, Done i c) \<Rightarrow>
             (st\<lparr>rq_busy := False,
                 rq_lastResult := \<lparr>lr_productId = Some i, lr_shortCode = Some c, lr_error = None\<rparr>\<rparr>,
              effects)))"

text \<open>
  The specification's \<open>derive\<close> (section 4.1), in its words: the hash of the encodings of
  name, color, material (text), price and year (unsigned 256-bit integers), concatenated
  in that order.
\<close>

definition derive :: "string \<Rightarrow> string \<Rightarrow> string \<Rightarrow> int \<Rightarrow> int \<Rightarrow> string" where
  "derive n c m p y = keccak256 (n @ c @ m @ uint256_bytes p @ uint256_bytes y)"

text \<open>A form whose price and year are written in plain decimal digits.\<close>

definition decimal_form :: "form \<Rightarrow> bool" where
  "decimal_form form = (list_all is_digit (f_price form) \<and> list_all is_digit (f_year form))"

section \<open>An example registration\<close>

text \<open>
  The product of the specification's verdict table, registered without a year on a clock
  that reads the year 2025 and the second 1700000000.
\<close>

definition admin :: string where
  "admin = ''0xa2BB67a5912D742B052Bf1ad4CEe47E4FC3F747C''"

definition example_form :: form where
  "example_form =
     \<lparr>f_name = ''Bag A'', f_price = ''1000'', f_color = ''Black'', f_material = ''Togo Leather'',
      f_year = []\<rparr>"

definition example_env :: register_env where
  "example_env =
     \<lparr>has_wallet = True, wallet_accounts = Inr [admin], current_year = 2025,
      now_seconds = 1700000000,
      contract = Inr \<lparr>c_abi = Some ''[]'', c_address = ''0x5FbDB2315678afecb367f032d93F642f64180aa3''\<rparr>,
      send_error = None,
      codes_register = (\<lambda>q. Responded 200 [] (Inr \<lparr>shortCode = ''VS2BOF''\<rparr>)),
      public_verify_base = ''http://localhost:5173/verify''\<rparr>"

definition example_panel :: RegisterPanel where
  "example_panel = \<lparr>rp_form = example_form, rp_busy = False\<rparr>"

definition example_panel_part_005 :: RegisterPanel_part_005 where
  "example_panel_part_005 =
     \<lparr>rq_form = example_form, rq_busy = False,
      rq_lastResult = \<lparr>lr_productId = None, lr_shortCode = None, lr_error = None\<rparr>\<rparr>"

section \<open>Properties of the customer verification entry points\<close>

lemma upper_lower_unit: "upper_unit (lower_unit u) = upper_unit u"
  by (simp add: upper_unit_def lower_unit_def utf16_def lower_letters_def upper_letters_def)

lemma same_up_to_case_upper:
  "same_up_to_case a b \<Longrightarrow> map upper_unit a = map upper_unit b"
proof -
  assume h: "same_up_to_case a b"
  have "map upper_unit a = map upper_unit (map lower_unit a)"
    by (simp add: upper_lower_unit)
  also have "\<dots> = map upper_unit (map lower_unit b)"
    using h by (simp add: same_up_to_case_def)
  also have "\<dots> = map upper_unit b"
    by (simp add: upper_lower_unit)
  finally show ?thesis .
qed

lemma upper_code_char: "is_code_char u \<Longrightarrow> upper_unit u = u"
  apply (simp add: is_code_char_def utf16_def upper_letters_def)
  apply (elim disjE)
  apply (simp_all add: upper_unit_def utf16_def lower_letters_def upper_letters_def)
  done

lemma code_char_not_white: "is_code_char u \<Longrightarrow> \<not> is_white_space u"
  apply (simp add: is_code_char_def utf16_def upper_letters_def)
  apply (elim disjE)
  apply (simp_all add: is_white_space_def white_space_def)
  done

lemma white_not_lead: "is_white_space u \<Longrightarrow> \<not> is_lead u"
  apply (simp add: is_white_space_def white_space_def)
  apply (elim disjE)
  apply (simp_all add: is_lead_def)
  done

lemma white_upper_point: "is_white_space u \<Longrightarrow> upper_point ucd [u] = [u]"
  apply (simp add: is_white_space_def white_space_def)
  apply (elim disjE)
  apply (simp_all add: upper_point_def upper_unit_def utf16_def lower_letters_def upper_letters_def
      is_white_space_def white_space_def)
  done

lemma lower_code_char_ascii:
  "is_code_char s \<Longrightarrow> lower_unit b = lower_unit s \<Longrightarrow> b < 0x80"
  apply (simp add: is_code_char_def utf16_def upper_letters_def)
  apply (elim disjE)
  apply (simp_all add: lower_unit_def utf16_def lower_letters_def upper_letters_def split: if_splits)
  done

lemma code_points_plain:
  "list_all (\<lambda>u. \<not> is_lead u) s \<Longrightarrow> code_points s = map (\<lambda>u. [u]) s"
  by (induction s rule: code_points.induct) simp_all

lemma js_toUpperCase_plain:
  "list_all (\<lambda>u. \<not> is_lead u) s \<Longrightarrow>
     js_toUpperCase ucd s = concat (map (\<lambda>u. upper_point ucd [u]) s)"
  by (simp add: js_toUpperCase_def code_points_plain comp_def)

lemma ascii_not_lead: "u < 0x80 \<Longrightarrow> \<not> is_lead (u :: code_unit)"
  by (simp add: is_lead_def word_less_nat_alt word_le_nat_alt)

lemma js_toUpperCase_padded:
  assumes l: "list_all is_white_space l" and r: "list_all is_white_space r"
    and b: "list_all (\<lambda>u. u < 0x80) body"
  shows "js_toUpperCase ucd (l @ body @ r) = l @ map upper_unit body @ r"
proof -
  have plain: "list_all (\<lambda>u. \<not> is_lead u) (l @ body @ r)"
    using l r b by (auto simp: list_all_iff white_not_lead ascii_not_lead)
  have whites: "concat (map (\<lambda>u. upper_point ucd [u]) w) = w" if "list_all is_white_space w" for w
    using that by (induction w) (simp_all add: white_upper_point)
  have ascii: "concat (map (\<lambda>u. upper_point ucd [u]) body) = map upper_unit body"
    using b by (induction body) (simp_all add: upper_point_def)
  show ?thesis
    using l r by (simp add: js_toUpperCase_plain [OF plain] whites ascii)
qed

lemma dropWhile_white_append:
  "list_all is_white_space l \<Longrightarrow> dropWhile is_white_space (l @ xs) = dropWhile is_white_space xs"
  by (induction l) simp_all

lemma js_trim_padded:
  assumes l: "list_all is_white_space l" and r: "list_all is_white_space r"
    and s: "list_all is_code_char s"
  shows "js_trim (l @ s @ r) = s"
proof (cases s)
  case Nil
  have "\<forall>x\<in>set (l @ r). is_white_space x"
    using l r by (auto simp: list_all_iff)
  then have "dropWhile is_white_space (l @ r) = []"
    by (simp only: dropWhile_eq_Nil_conv)
  then have "js_trim (l @ r) = []"
    unfolding js_trim_def by (simp only: rev.simps dropWhile.simps)
  then show ?thesis using Nil by simp
next
  case (Cons c cs)
  have first: "\<not> is_white_space (hd s)" and final: "\<not> is_white_space (last s)"
    using s Cons by (auto simp: list_all_iff code_char_not_white)
  have "dropWhile is_white_space (l @ s @ r) = s @ r"
    using l first Cons by (simp add: dropWhile_white_append)
  moreover have "dropWhile is_white_space (rev r @ rev s) = rev s"
  proof -
    have "list_all is_white_space (rev r)" using r by (simp add: list_all_iff)
    moreover have "dropWhile is_white_space (rev s) = rev s"
      using final Cons by (simp only: dropWhile_eq_self_iff hd_rev) simp
    ultimately show ?thesis by (simp add: dropWhile_white_append)
  qed
  ultimately show ?thesis by (simp add: js_trim_def)
qed

lemma same_up_to_case_ascii:
  assumes "list_all is_code_char stored" and "same_up_to_case body stored"
  shows "list_all (\<lambda>u. u < 0x80) body"
proof -
  have eq: "map lower_unit body = map lower_unit stored"
    using assms(2) by (simp add: same_up_to_case_def)
  then have len: "length body = length stored"
    by (rule map_eq_imp_length_eq)
  have "body ! i < 0x80" if "i < length body" for i
  proof -
    have "lower_unit (body ! i) = lower_unit (stored ! i)"
      using eq that len by (metis nth_map)
    moreover have "is_code_char (stored ! i)"
      using assms(1) that len by (simp add: list_all_length)
    ultimately show ?thesis by (rule lower_code_char_ascii [rotated])
  qed
  then show ?thesis by (simp add: list_all_length)
qed

lemma js_trim_toUpperCase_padded:
  assumes "list_all is_code_char stored" and "list_all is_white_space l"
    and "list_all is_white_space r" and "same_up_to_case body stored"
  shows "js_trim (js_toUpperCase ucd (l @ body @ r)) = stored"
proof -
  have "map upper_unit body = map upper_unit stored"
    using assms(4) by (rule same_up_to_case_upper)
  moreover have "map upper_unit stored = stored"
    using assms(1) by (induction stored) (simp_all add: upper_code_char)
  moreover have "js_toUpperCase ucd (l @ body @ r) = l @ map upper_unit body @ r"
    using assms(2,3) same_up_to_case_ascii [OF assms(1,4)] by (rule js_toUpperCase_padded)
  ultimately show ?thesis
    using assms(1,2,3) by (simp add: js_trim_padded)
qed

text \<open>
  Claim C10. \<open>onVerify\<close> of CustomerVerify.tsx rejects every code whose trimmed length
  (in UTF-16 code units, after \<open>trim\<close>) is not exactly 6 before any request: it only sets
  the local input error, sends nothing (the list of effects is empty) and leaves
  \<open>result\<close>, \<open>busy\<close> and the code as they were, so no verdict is produced.
\<close>

theorem onVerify_rejects_wrong_length:
  "length (js_trim (cv_code st)) \<noteq> 6 \<Longrightarrow>
     onVerify productId net st = (st\<lparr>cv_error := Some six_characters_message\<rparr>, [])"
  by (simp add: onVerify_def)

theorem onVerify_rejects_wrong_length_witness:
  "length (js_trim ([0x00A0] @ utf16 ''VS2BOFX'' @ [0x0020])) \<noteq> 6 \<and>
   onVerify (utf16 ''0x01'') (\<lambda>q. Rejected (JsError ''TypeError'' ''Failed to fetch''))
       \<lparr>cv_code = [0x00A0] @ utf16 ''VS2BOFX'' @ [0x0020], cv_busy = False, cv_result = None,
        cv_error = None\<rparr>
     = (\<lparr>cv_code = [0x00A0] @ utf16 ''VS2BOFX'' @ [0x0020], cv_busy = False, cv_result = None,
         cv_error = Some six_characters_message\<rparr>, [])"
proof -
  have h: "length (js_trim ([0x00A0] @ utf16 ''VS2BOFX'' @ [0x0020])) \<noteq> 6"
    by (simp add: js_trim_def is_white_space_def white_space_def utf16_def)
  show ?thesis
    using h onVerify_rejects_wrong_length
      [of "\<lparr>cv_code = [0x00A0] @ utf16 ''VS2BOFX'' @ [0x0020], cv_busy = False,
            cv_result = None, cv_error = None\<rparr>"
          "utf16 ''0x01''" "\<lambda>q. Rejected (JsError ''TypeError'' ''Failed to fetch'')"]
    by simp
qed

text \<open>
  Claim C7, as the code has it. Both entry points upper-case what is entered
  (\<open>onChange\<close>) and trim it (\<open>onVerify\<close>, \<open>doVerify\<close>) before the request, so an entered
  code that differs from the stored code only in the case of its letters and in leading
  or trailing white space (any white space \<open>trim\<close> knows) reaches the backend as exactly
  the stored code, whatever the engine's case table does outside ASCII.
  CustomerVerify.tsx does so for stored codes of exactly 6 characters (its length guard,
  claim C10). CustomerApp.tsx does so for every non-empty code, given a non-blank product
  id, when the entered text with its white space has at most 8 code units, which is all
  its field takes.
\<close>

theorem short_code_normalised_before_request:
  assumes "list_all is_code_char stored"
    and "list_all is_white_space l" and "list_all is_white_space r"
    and "same_up_to_case body stored"
  shows "(length stored = 6 \<longrightarrow>
            snd (onVerify productId net (cv_onChange ucd (l @ body @ r) st)) =
              [Sent (PostUtf16 ''/customer-verify''
                 [(''product_id'', productId), (''short_code'', stored)])])
       \<and> (stored \<noteq> [] \<and> length (l @ body @ r) \<le> 8 \<and> js_trim (ca_productId app) \<noteq> [] \<longrightarrow>
            snd (doVerify net (ca_onChange ucd (l @ body @ r) app)) =
              [Sent (PostUtf16 ''/customer-verify''
                 [(''product_id'', js_trim (ca_productId app)), (''short_code'', stored)])])"
proof -
  have t: "js_trim (js_toUpperCase ucd (l @ body @ r)) = stored"
    using assms by (rule js_trim_toUpperCase_padded)
  have a: "length stored = 6 \<longrightarrow>
            snd (onVerify productId net (cv_onChange ucd (l @ body @ r) st)) =
              [Sent (PostUtf16 ''/customer-verify''
                 [(''product_id'', productId), (''short_code'', stored)])]"
    using t by (simp add: onVerify_def cv_onChange_def Let_def split: sum.splits)
  have b: "stored \<noteq> [] \<and> length (l @ body @ r) \<le> 8 \<and> js_trim (ca_productId app) \<noteq> [] \<longrightarrow>
            snd (doVerify net (ca_onChange ucd (l @ body @ r) app)) =
              [Sent (PostUtf16 ''/customer-verify''
                 [(''product_id'', js_trim (ca_productId app)), (''short_code'', stored)])]"
  proof (intro impI)
    assume h: "stored \<noteq> [] \<and> length (l @ body @ r) \<le> 8 \<and> js_trim (ca_productId app) \<noteq> []"
    then have len: "length (l @ body @ r) \<le> 8"
      by blast
    have m: "maxLength 8 (l @ body @ r) = l @ body @ r"
      unfolding maxLength_def using len by (rule take_all)
    from h have s: "stored \<noteq> []" and p: "js_trim (ca_productId app) \<noteq> []"
      by blast+
    show "snd (doVerify net (ca_onChange ucd (l @ body @ r) app)) =
              [Sent (PostUtf16 ''/customer-verify''
                 [(''product_id'', js_trim (ca_productId app)), (''short_code'', stored)])]"
      using t s p by (simp add: doVerify_def ca_onChange_def m Let_def split: sum.splits)
  qed
  from a b show ?thesis by (rule conjI)
qed

lemma example_code_chars: "list_all is_code_char (utf16 ''VS2BOF'')"
  by (simp add: is_code_char_def utf16_def upper_letters_def)

lemma example_same_up_to_case: "same_up_to_case (utf16 ''vs2bof'') (utf16 ''VS2BOF'')"
  by (simp add: same_up_to_case_def lower_unit_def utf16_def upper_letters_def lower_letters_def)

lemma example_js_trim: "js_trim (utf16 ''0x01'') = utf16 ''0x01''"
  by (simp add: js_trim_def is_white_space_def white_space_def utf16_def)

theorem short_code_normalised_before_request_witness:
  "list_all is_code_char (utf16 ''VS2BOF'') \<and>
   list_all is_white_space [0x00A0] \<and> list_all is_white_space [0x0020] \<and>
   same_up_to_case (utf16 ''vs2bof'') (utf16 ''VS2BOF'') \<and>
   length ([0x00A0] @ utf16 ''vs2bof'' @ [0x0020]) \<le> 8 \<and>
   snd (onVerify (utf16 ''0x01'')
          (\<lambda>q. Responded 200 [] (Inr \<lparr>success = True, product = [],
                  verdict = \<lparr>status = ''authentic'', reason = ''on_chain_and_code_match''\<rparr>\<rparr>))
          (cv_onChange (\<lambda>p. p) ([0x00A0] @ utf16 ''vs2bof'' @ [0x0020])
             \<lparr>cv_code = [], cv_busy = False, cv_result = None, cv_error = None\<rparr>))
     = [Sent (PostUtf16 ''/customer-verify''
          [(''product_id'', utf16 ''0x01''), (''short_code'', utf16 ''VS2BOF'')])] \<and>
   snd (doVerify
          (\<lambda>q. Responded 200 [] (Inr \<lparr>success = True, product = [],
                  verdict = \<lparr>status = ''authentic'', reason = ''on_chain_and_code_match''\<rparr>\<rparr>))
          (ca_onChange (\<lambda>p. p) ([0x00A0] @ utf16 ''vs2bof'' @ [0x0020])
             \<lparr>ca_productId = utf16 ''0x01'', ca_shortCode = [], ca_result = None, ca_busy = False,
              ca_errorMsg = None\<rparr>))
     = [Sent (PostUtf16 ''/customer-verify''
          [(''product_id'', utf16 ''0x01''), (''short_code'', utf16 ''VS2BOF'')])]"
proof -
  have h2: "list_all is_white_space [0x00A0]" and h3: "list_all is_white_space [0x0020]"
    by (simp_all add: is_white_space_def white_space_def)
  have h5: "length ([0x00A0] @ utf16 ''vs2bof'' @ [0x0020 :: code_unit]) \<le> 8"
    by (simp add: utf16_def)
  have h6: "length (utf16 ''VS2BOF'') = 6" "utf16 ''VS2BOF'' \<noteq> []" "utf16 ''0x01'' \<noteq> []"
    by (simp_all add: utf16_def)
  show ?thesis
    using h2 h3 h5 h6 example_code_chars example_same_up_to_case example_js_trim
      short_code_normalised_before_request
        [OF example_code_chars h2 h3 example_same_up_to_case,
         of "utf16 ''0x01''"
         "\<lambda>q. Responded 200 [] (Inr \<lparr>success = True, product = [],
                  verdict = \<lparr>status = ''authentic'', reason = ''on_chain_and_code_match''\<rparr>\<rparr>)"
         "\<lambda>p. p"
         "\<lparr>cv_code = [], cv_busy = False, cv_result = None, cv_error = None\<rparr>"
         "\<lparr>ca_productId = utf16 ''0x01'', ca_shortCode = [], ca_result = None, ca_busy = False,
              ca_errorMsg = None\<rparr>"]
    by simp
qed


text \<open>
  The claim as stated, for every stored code, fails in both components. In
  CustomerVerify.tsx the stored code \<open>VS2BOFX\<close> has 7 characters, the typed \<open>vs2bofx\<close>
  differs from it only in case, and \<open>onVerify\<close> answers with the local input error and
  sends nothing. In CustomerApp.tsx the field cuts what is entered after 8 code units:
  the stored code \<open>VS2BOF\<close> entered as \<open>vs2bof\<close> after three spaces is sent as \<open>VS2BO\<close>.
\<close>

theorem short_code_seven_characters_counterexample:
  "list_all is_code_char (utf16 ''VS2BOFX'') \<and>
   same_up_to_case (utf16 ''vs2bofx'') (utf16 ''VS2BOFX'') \<and>
   onVerify (utf16 ''0x01'')
      (\<lambda>q. Responded 200 [] (Inr \<lparr>success = True, product = [],
              verdict = \<lparr>status = ''authentic'', reason = ''on_chain_and_code_match''\<rparr>\<rparr>))
      (cv_onChange (\<lambda>p. p) (utf16 ''vs2bofx'')
         \<lparr>cv_code = [], cv_busy = False, cv_result = None, cv_error = None\<rparr>)
     = (\<lparr>cv_code = utf16 ''VS2BOFX'', cv_busy = False, cv_result = None,
         cv_error = Some six_characters_message\<rparr>, []) \<and>
   list_all is_code_char (utf16 ''VS2BOF'') \<and>
   list_all is_white_space (utf16 ''   '') \<and>
   same_up_to_case (utf16 ''vs2bof'') (utf16 ''VS2BOF'') \<and>
   snd (doVerify
          (\<lambda>q. Responded 200 [] (Inr \<lparr>success = True, product = [],
                  verdict = \<lparr>status = ''authentic'', reason = ''on_chain_and_code_match''\<rparr>\<rparr>))
          (ca_onChange (\<lambda>p. p) (utf16 ''   '' @ utf16 ''vs2bof'' @ [])
             \<lparr>ca_productId = utf16 ''0x01'', ca_shortCode = [], ca_result = None, ca_busy = False,
              ca_errorMsg = None\<rparr>))
     = [Sent (PostUtf16 ''/customer-verify''
          [(''product_id'', utf16 ''0x01''), (''short_code'', utf16 ''VS2BO'')])]"
  by (simp add: is_code_char_def same_up_to_case_def lower_unit_def upper_letters_def
      lower_letters_def onVerify_def cv_onChange_def js_toUpperCase_def upper_point_def
      upper_unit_def is_lead_def js_trim_def is_white_space_def white_space_def utf16_def
      doVerify_def ca_onChange_def maxLength_def fetchJSON_def Let_def)

section \<open>Properties of the admin verification panel\<close>

lemma fetchJSON_Rejected: "fetchJSON (Rejected e) = Inl e"
  by (simp add: fetchJSON_def)

text \<open>
  Claim C4, as the code has it. When the request of \<open>go\<close> fails (the fetch rejects on a
  network fault, the backend answers outside 200..299, or the body is not JSON), \<open>go\<close>
  does not throw (no error leaves it): it ends with \<open>out\<close> set to a structured verdict of
  status \<open>fake\<close> whose reason is the text \<open>network_or_server_error \<emdash> unable to verify\<close>,
  puts the same response on top of the history, keeps the error's message and clears
  \<open>busy\<close>. The request is the one \<open>go\<close> makes for a product id that is not blank and that
  \<open>encodeURIComponent\<close> can write in the URL.
\<close>

theorem go_failure_gives_fake_verdict:
  assumes "js_trim (vp_pid st) \<noteq> []"
    and "js_encodeURIComponent (js_trim (vp_pid st)) = Inr encoded"
    and "fetchJSON (net (Get (''/verify/'' @ encoded))) = Inl e"
  shows "go net st =
           (st\<lparr>vp_busy := False, vp_out := Some fakeResponse,
               vp_errorMsg := Some (message_or_String e),
               vp_history := fakeResponse # vp_history st\<rparr>,
            [Sent (Get (''/verify/'' @ encoded))], None)
         \<and> status (verdict fakeResponse) = ''fake''
         \<and> reason (verdict fakeResponse) =
             ''network_or_server_error '' @ [CHR 0xE2, CHR 0x80, CHR 0x94] @ '' unable to verify''"
  using assms by (simp add: go_def Let_def fakeResponse_def)

lemma example_encodeURIComponent: "js_encodeURIComponent (utf16 ''0x01'') = Inr ''0x01''"
  by (simp add: utf16_def unreserved_char_def uri_unreserved_chars_def upper_letters_def
      lower_letters_def followed_by_def)

lemma example_encodeURIComponent_euro:
  "js_encodeURIComponent (utf16 ''a b'' @ [0x20AC, 0xD83D, 0xDE00, 0x00E9]) = Inr ''a%20b%E2%82%AC%F0%9F%98%80%C3%A9''"
  by (simp add: utf16_def unreserved_char_def uri_unreserved_chars_def upper_letters_def
      lower_letters_def followed_by_def is_lead_def is_trail_def percent_encoded_def
      utf8_octets_def hex_digit_def)

lemma example_encodeURIComponent_lone:
  "js_encodeURIComponent (utf16 ''a'' @ [0xD83D]) = Inl URIError"
  by (simp add: utf16_def unreserved_char_def uri_unreserved_chars_def upper_letters_def
      lower_letters_def followed_by_def is_lead_def is_trail_def percent_encoded_def
      utf8_octets_def hex_digit_def)

theorem go_failure_gives_fake_verdict_witness:
  "js_trim (utf16 ''0x01'') \<noteq> [] \<and>
   js_encodeURIComponent (js_trim (utf16 ''0x01'')) = Inr ''0x01'' \<and>
   go (\<lambda>q. Rejected (JsError ''TypeError'' ''Failed to fetch''))
      \<lparr>vp_pid = utf16 ''0x01'', vp_out = None, vp_history = [], vp_busy = False,
       vp_errorMsg = None\<rparr>
     = (\<lparr>vp_pid = utf16 ''0x01'', vp_out = Some fakeResponse, vp_history = [fakeResponse],
         vp_busy = False, vp_errorMsg = Some ''Failed to fetch''\<rparr>,
        [Sent (Get ''/verify/0x01'')], None)"
proof -
  let ?st = "\<lparr>vp_pid = utf16 ''0x01'', vp_out = None, vp_history = [], vp_busy = False,
               vp_errorMsg = None\<rparr>"
  have h0: "js_trim (vp_pid ?st) \<noteq> []"
    by (simp add: example_js_trim) (simp add: utf16_def)
  have h1: "js_encodeURIComponent (js_trim (vp_pid ?st)) = Inr ''0x01''"
    by (simp add: example_js_trim example_encodeURIComponent)
  have h3: "fetchJSON ((\<lambda>q. Rejected (JsError ''TypeError'' ''Failed to fetch''))
              (Get (''/verify/'' @ ''0x01''))) = Inl (JsError ''TypeError'' ''Failed to fetch'')"
    by (simp add: fetchJSON_Rejected)
  show ?thesis
    using h0 h1 go_failure_gives_fake_verdict [OF h0 h1 h3]
    by (simp add: message_or_String_def)
qed

text \<open>
  The claim as stated names the reason code \<open>verification_unavailable\<close>; on a rejected
  fetch the reason \<open>go\<close> reports is another text.
\<close>

theorem go_reason_counterexample:
  "map_option (\<lambda>r. reason (verdict r))
     (vp_out (fst (go (\<lambda>q. Rejected (JsError ''TypeError'' ''Failed to fetch''))
        \<lparr>vp_pid = utf16 ''0x01'', vp_out = None, vp_history = [], vp_busy = False,
         vp_errorMsg = None\<rparr>)))
     = Some (''network_or_server_error '' @ [CHR 0xE2, CHR 0x80, CHR 0x94] @ '' unable to verify'')
   \<and> ''network_or_server_error '' @ [CHR 0xE2, CHR 0x80, CHR 0x94] @ '' unable to verify''
       \<noteq> ''verification_unavailable''"
  by (simp add: go_def Let_def fakeResponse_def fetchJSON_def example_js_trim
      example_encodeURIComponent) (simp add: utf16_def)

section \<open>Properties of artifact resolution\<close>

lemma string_of_nat_31337: "string_of_nat 31337 = ''31337''"
  by (simp add: string_of_nat.simps digit_char_def)

lemma string_of_nat_1: "string_of_nat 1 = ''1''" "string_of_nat (Suc 0) = ''1''"
  by (simp_all add: string_of_nat.simps digit_char_def)

text \<open>
  Claim C3, as the code has it. For an artifact the backend served and the network id
  \<open>N\<close> of the provider:
  \<^item> when the artifact has an entry for exactly \<open>N\<close> with a non-empty address, both files
    build the contract at that address: they return what the constructor returns for the
    artifact's interface and that address, or throw what it throws (src/useContract.ts
    only for an artifact that has an interface);
  \<^item> frontend/src/useContract.ts fails with \<open>Contract not deployed for network N.\<close>
    in every other case and never falls back;
  \<^item> src/useContract.ts fails with \<open>Invalid contract artifact from backend.\<close> when the
    artifact has no interface; otherwise, with no entry for \<open>N\<close>, it takes the entry
    \<open>31337\<close> whenever that entry has a non-empty address, with no configuration consulted,
    and fails with \<open>No contract address found in artifact for network N.\<close> when the entry
    \<open>31337\<close> is missing or its address is missing or empty, when the entry for \<open>N\<close> is
    there with a missing or empty address, and when the artifact has no \<open>networks\<close>.
\<close>

theorem artifact_resolution:
  assumes "getArtifact net = Inr (Some a)"
  shows "(network_address a (string_of_nat n) = Some t \<and> t \<noteq> [] \<longrightarrow>
            loadContract new_Contract net n = new_Contract (abi a) t \<and>
            (abi a \<noteq> None \<longrightarrow>
               loadContract_part_004 new_Contract net n = new_Contract (abi a) t))
       \<and> (\<not> truthy (network_address a (string_of_nat n)) \<longrightarrow>
            loadContract new_Contract net n =
              Inl (JsError ''Error'' (''Contract not deployed for network '' @ string_of_nat n @ ''.'')))
       \<and> (abi a = None \<longrightarrow>
            loadContract_part_004 new_Contract net n =
              Inl (JsError ''Error'' ''Invalid contract artifact from backend.''))
       \<and> (abi a \<noteq> None \<and> networks a = Some nets \<and> nets (string_of_nat n) = None \<and>
          network_address a ''31337'' = Some u \<and> u \<noteq> [] \<longrightarrow>
            loadContract_part_004 new_Contract net n = new_Contract (abi a) u)
       \<and> (abi a \<noteq> None \<and>
          (networks a = None \<or>
           networks a = Some nets \<and> nets (string_of_nat n) = None \<and>
             \<not> truthy (network_address a ''31337'') \<or>
           networks a = Some nets \<and> nets (string_of_nat n) \<noteq> None \<and>
             \<not> truthy (network_address a (string_of_nat n))) \<longrightarrow>
            loadContract_part_004 new_Contract net n =
              Inl (JsError ''Error'' (''No contract address found in artifact for network ''
                     @ string_of_nat n @ ''.'')))"
  using assms
  by (auto simp: loadContract_def loadContract_part_004_def network_address_def truthy_def Let_def
      split: option.splits)

theorem artifact_resolution_witness:
  "loadContract (\<lambda>i t. Inr \<lparr>c_abi = i, c_address = t\<rparr>)
     (\<lambda>q. Responded 200 [] (Inr (Some \<lparr>abi = Some ''[]'',
        networks = Some [''31337'' \<mapsto> \<lparr>address = Some ''0x5fbdb2315678afecb367f032d93f642f64180aa3''\<rparr>]\<rparr>)))
     31337 = Inr \<lparr>c_abi = Some ''[]'', c_address = ''0x5fbdb2315678afecb367f032d93f642f64180aa3''\<rparr>
   \<and> loadContract_part_004 (\<lambda>i t. Inr \<lparr>c_abi = i, c_address = t\<rparr>)
     (\<lambda>q. Responded 200 [] (Inr (Some \<lparr>abi = Some ''[]'',
        networks = Some [''31337'' \<mapsto> \<lparr>address = Some ''0x5fbdb2315678afecb367f032d93f642f64180aa3''\<rparr>]\<rparr>)))
     31337 = Inr \<lparr>c_abi = Some ''[]'', c_address = ''0x5fbdb2315678afecb367f032d93f642f64180aa3''\<rparr>
   \<and> loadContract (\<lambda>i t. Inr \<lparr>c_abi = i, c_address = t\<rparr>)
     (\<lambda>q. Responded 200 [] (Inr (Some \<lparr>abi = Some ''[]'',
        networks = Some [''31337'' \<mapsto> \<lparr>address = Some ''0x5fbdb2315678afecb367f032d93f642f64180aa3''\<rparr>]\<rparr>)))
     1 = Inl (JsError ''Error'' ''Contract not deployed for network 1.'')
   \<and> loadContract_part_004 (\<lambda>i t. Inr \<lparr>c_abi = i, c_address = t\<rparr>)
     (\<lambda>q. Responded 200 [] (Inr (Some \<lparr>abi = None,
        networks = Some [''31337'' \<mapsto> \<lparr>address = Some ''0x5fbdb2315678afecb367f032d93f642f64180aa3''\<rparr>]\<rparr>)))
     31337 = Inl (JsError ''Error'' ''Invalid contract artifact from backend.'')
   \<and> loadContract_part_004 (\<lambda>i t. Inr \<lparr>c_abi = i, c_address = t\<rparr>)
     (\<lambda>q. Responded 200 [] (Inr (Some \<lparr>abi = Some ''[]'',
        networks = Some [''31337'' \<mapsto> \<lparr>address = Some ''0x5fbdb2315678afecb367f032d93f642f64180aa3''\<rparr>]\<rparr>)))
     1 = Inr \<lparr>c_abi = Some ''[]'', c_address = ''0x5fbdb2315678afecb367f032d93f642f64180aa3''\<rparr>
   \<and> loadContract_part_004 (\<lambda>i t. Inr \<lparr>c_abi = i, c_address = t\<rparr>)
     (\<lambda>q. Responded 200 [] (Inr (Some \<lparr>abi = Some ''[]'',
        networks = Some [''31337'' \<mapsto> \<lparr>address = Some []\<rparr>]\<rparr>)))
     1 = Inl (JsError ''Error'' ''No contract address found in artifact for network 1.'')"
proof -
  let ?C = "\<lambda>i t. Inr \<lparr>c_abi = i, c_address = t\<rparr> :: js_error + Contract"
  let ?nets = "[''31337'' \<mapsto> \<lparr>address = Some ''0x5fbdb2315678afecb367f032d93f642f64180aa3''\<rparr>]"
  let ?a = "\<lparr>abi = Some ''[]'', networks = Some ?nets\<rparr>"
  let ?b = "\<lparr>abi = None :: string option, networks = Some ?nets\<rparr>"
  let ?empty = "[''31337'' \<mapsto> \<lparr>address = Some []\<rparr>]"
  let ?c = "\<lparr>abi = Some ''[]'', networks = Some ?empty\<rparr>"
  let ?net = "\<lambda>x. (\<lambda>q::request. Responded 200 [] (Inr (Some x)) :: ContractArtifact option http_result)"
  have g: "getArtifact (?net x) = Inr (Some x)" for x
    by (simp add: getArtifact_def fetchJSON_def)
  show ?thesis
    using artifact_resolution [OF g, of ?a 31337 "''0x5fbdb2315678afecb367f032d93f642f64180aa3''" ?C]
      artifact_resolution [OF g, of ?a 1 _ ?C ?nets "''0x5fbdb2315678afecb367f032d93f642f64180aa3''"]
      artifact_resolution [OF g, of ?b 31337 _ ?C]
      artifact_resolution [OF g, of ?c 1 _ ?C ?empty]
    by (simp add: string_of_nat_31337 string_of_nat_1 network_address_def truthy_def)
qed

text \<open>
  The claim as stated rules a silent fallback out. With an artifact that only knows
  network \<open>31337\<close> and a provider on network \<open>1\<close>, src/useContract.ts calls the constructor
  with the address deployed for \<open>31337\<close> (the constructor here returns what it is called
  with) and answers with that contract, where frontend/src/useContract.ts fails.
\<close>

theorem loadContract_fallback_counterexample:
  "loadContract_part_004 (\<lambda>i t. Inr \<lparr>c_abi = i, c_address = t\<rparr>)
     (\<lambda>q. Responded 200 [] (Inr (Some \<lparr>abi = Some ''[]'',
        networks = Some [''31337'' \<mapsto> \<lparr>address = Some ''0x5fbdb2315678afecb367f032d93f642f64180aa3''\<rparr>]\<rparr>)))
     1 = Inr \<lparr>c_abi = Some ''[]'', c_address = ''0x5fbdb2315678afecb367f032d93f642f64180aa3''\<rparr>"
  by (simp add: loadContract_part_004_def getArtifact_def fetchJSON_def string_of_nat_1)

section \<open>Properties of the registry and of verification\<close>

lemma lookupByCode_None: "lookupByCode reg c = None \<longleftrightarrow> c \<notin> snd ` set reg"
  by (induction reg) (auto simp: lookupByCode_def)

lemma lookup_None: "lookup reg f = None \<longleftrightarrow> f \<notin> fst ` set reg"
  by (simp add: lookup_def map_of_eq_None_iff)

lemma register_inv:
  assumes "registry_inv reg" and "register draws f reg = Inr (c, reg')"
  shows "registry_inv reg'"
proof -
  from assms(2) have f: "lookup reg f = None"
    and c: "find (\<lambda>c. lookupByCode reg c = None) draws = Some c"
    and r: "reg' = (f, c) # reg"
    by (auto simp: register_def split: if_splits option.splits)
  from c have "lookupByCode reg c = None"
    by (auto simp: find_Some_iff)
  with f assms(1) r show ?thesis
    by (simp add: registry_inv_def lookup_None lookupByCode_None)
qed

lemma run_registrations_inv:
  "registry_inv reg \<Longrightarrow> registry_inv (run_registrations reg as)"
proof (induction as arbitrary: reg)
  case Nil
  then show ?case by simp
next
  case (Cons a as)
  obtain draws f where a: "a = (draws, f)" by (cases a)
  show ?case
  proof (cases "register draws f reg")
    case (Inl e)
    with Cons a show ?thesis by simp
  next
    case (Inr p)
    obtain c reg' where p: "p = (c, reg')" by (cases p)
    with Inr Cons.prems have "registry_inv reg'"
      by (auto intro: register_inv)
    with Cons.IH Inr p a show ?thesis by simp
  qed
qed

lemma registry_inv_unique:
  assumes "registry_inv reg" and "lookup reg f1 = Some c" and "lookup reg f2 = Some c"
  shows "f1 = f2"
proof -
  from assms(2,3) have m: "(f1, c) \<in> set reg" "(f2, c) \<in> set reg"
    by (auto simp: lookup_def dest: map_of_SomeD)
  from assms(1) have "inj_on snd (set reg)"
    by (simp add: registry_inv_def distinct_map)
  from inj_onD [OF this, of "(f1, c)" "(f2, c)"] m show ?thesis
    by simp
qed

text \<open>
  Claim C9 (against the registry as the specification describes it). Whatever sequence
  of registrations has run from the empty registry, with whatever draws of the
  generator, two different fingerprints never hold the same short code.
\<close>

theorem registry_codes_unique:
  assumes "f1 \<noteq> f2"
    and "lookup (run_registrations [] as) f1 = Some c1"
    and "lookup (run_registrations [] as) f2 = Some c2"
  shows "c1 \<noteq> c2"
proof
  assume "c1 = c2"
  have "registry_inv (run_registrations ([] :: 'a registry) as)"
    by (rule run_registrations_inv) (simp add: registry_inv_def)
  from registry_inv_unique [OF this, of f1 c1 f2] assms \<open>c1 = c2\<close> show False
    by simp
qed

theorem registry_codes_unique_witness:
  "(1 :: bytes32) \<noteq> 2
   \<and> lookup (run_registrations [] [([''ABCDEF''], 1 :: bytes32), ([''ABCDEF'', ''GHJKLM''], 2)]) 1
       = Some ''ABCDEF''
   \<and> lookup (run_registrations [] [([''ABCDEF''], 1 :: bytes32), ([''ABCDEF'', ''GHJKLM''], 2)]) 2
       = Some ''GHJKLM''
   \<and> ''ABCDEF'' \<noteq> ''GHJKLM''"
proof -
  have h0: "(1 :: bytes32) \<noteq> 2" by simp
  have h1: "lookup (run_registrations [] [([''ABCDEF''], 1 :: bytes32), ([''ABCDEF'', ''GHJKLM''], 2)]) 1
       = Some ''ABCDEF''"
    by (simp add: register_def lookup_def lookupByCode_def)
  have h2: "lookup (run_registrations [] [([''ABCDEF''], 1 :: bytes32), ([''ABCDEF'', ''GHJKLM''], 2)]) 2
       = Some ''GHJKLM''"
    by (simp add: register_def lookup_def lookupByCode_def)
  from registry_codes_unique [OF h0 h1 h2] h0 h1 h2 show ?thesis
    by simp
qed

section \<open>Properties of the ledger contract\<close>

lemma getProduct_uploadProduct:
  "getProduct (uploadProduct i n c m p y s) j = (if j = i then (n, c, m, p, y) else getProduct s j)"
  by (simp add: getProduct_def uploadProduct_def)

lemma run_txs_snoc: "run_txs s (ts @ [t]) = apply_tx (run_txs s ts) t"
  by (simp add: run_txs_def)

lemma getProduct_apply_tx:
  "getProduct (apply_tx s t) j = (if j = tx_id t then tx_attributes t else getProduct s j)"
  by (simp add: apply_tx_def getProduct_uploadProduct tx_attributes_def)

lemma ledger_last_write_wins_aux:
  "getProduct (run_txs s ts) i =
     (case last_upload i ts of None \<Rightarrow> getProduct s i | Some t \<Rightarrow> tx_attributes t)"
proof (induction ts rule: rev_induct)
  case Nil
  show ?case by (simp add: run_txs_def last_upload_def)
next
  case (snoc t ts)
  show ?case
  proof (cases "tx_id t = i")
    case True
    then show ?thesis
      by (simp add: run_txs_snoc getProduct_apply_tx last_upload_def)
  next
    case False
    with snoc show ?thesis
      by (simp add: run_txs_snoc getProduct_apply_tx last_upload_def)
  qed
qed

text \<open>
  Claim C5. Last write wins: after any sequence of \<open>uploadProduct\<close> transactions, from any
  contract state, \<open>getProduct i\<close> returns exactly the attributes of the most recent
  transaction that wrote \<open>i\<close> (and what the state held before when there is none); the
  contract has no branch that rejects a second write to a key.
\<close>

theorem ledger_last_write_wins:
  "getProduct (run_txs s ts) i =
     (case last_upload i ts of None \<Rightarrow> getProduct s i | Some t \<Rightarrow> tx_attributes t)"
  by (rule ledger_last_write_wins_aux)

lemma getProduct_never_written:
  "i \<notin> tx_id ` set ts \<Longrightarrow> getProduct (run_txs s ts) i = getProduct s i"
proof -
  assume "i \<notin> tx_id ` set ts"
  then have "last_upload i ts = None"
    by (auto simp: last_upload_def find_None_iff)
  then show ?thesis
    by (simp add: ledger_last_write_wins_aux)
qed

text \<open>
  Claim C6, as the code and the specification's engine have it. For a fingerprint no
  \<open>uploadProduct\<close> transaction has written since deployment, \<open>getProduct\<close> returns the
  all-empty, all-zero record, and verification against that ledger is \<open>fake\<close> whatever the
  registry and the presented code. The reason is \<open>ledger_record_missing\<close> when the
  registry holds a code for the fingerprint and the presented code matches it; the
  earlier steps answer \<open>no_registration\<close> for a fingerprint without registration and
  \<open>code_mismatch\<close> for a wrong code.
\<close>

theorem never_uploaded_reads_zero_and_is_fake:
  assumes "i \<notin> tx_id ` set ts"
  shows "getProduct (run_txs deployed ts) i = ([], [], [], 0, 0)
       \<and> ev_status (verify reg (contract_reader (run_txs deployed ts)) i presented) = ''fake''
       \<and> (lookup reg i = Some stored \<and> toUpperCase stored = normalize presented \<longrightarrow>
            ev_reason (verify reg (contract_reader (run_txs deployed ts)) i presented)
              = ''ledger_record_missing'')
       \<and> (lookup reg i = Some stored \<and> toUpperCase stored \<noteq> normalize presented \<longrightarrow>
            ev_reason (verify reg (contract_reader (run_txs deployed ts)) i presented)
              = ''code_mismatch'')
       \<and> (lookup reg i = None \<longrightarrow>
            ev_reason (verify reg (contract_reader (run_txs deployed ts)) i presented)
              = ''no_registration'')"
proof -
  have "getProduct (run_txs deployed ts) i = getProduct deployed i"
    using assms by (rule getProduct_never_written)
  also have "\<dots> = ([], [], [], 0, 0)"
    by (simp add: getProduct_def deployed_def zero_Product_def)
  finally have z: "getProduct (run_txs deployed ts) i = ([], [], [], 0, 0)" .
  then show ?thesis
    by (simp add: verify_def contract_reader_def Let_def split: option.splits)
qed

theorem never_uploaded_reads_zero_and_is_fake_witness:
  "(2 :: bytes32) \<notin> tx_id ` set [\<lparr>tx_id = 1, tx_name = ''Bag A'', tx_color = ''Black'',
        tx_material = ''Togo Leather'', tx_price = 1000, tx_year = 2024\<rparr>]
   \<and> getProduct (run_txs deployed [\<lparr>tx_id = 1, tx_name = ''Bag A'', tx_color = ''Black'',
        tx_material = ''Togo Leather'', tx_price = 1000, tx_year = 2024\<rparr>]) 2 = ([], [], [], 0, 0)
   \<and> lookup [(2 :: bytes32, ''VS2BOF'')] 2 = Some ''VS2BOF''
   \<and> toUpperCase ''VS2BOF'' = normalize '' vs2bof''
   \<and> ev_reason (verify [(2 :: bytes32, ''VS2BOF'')]
        (contract_reader (run_txs deployed [\<lparr>tx_id = 1, tx_name = ''Bag A'', tx_color = ''Black'',
           tx_material = ''Togo Leather'', tx_price = 1000, tx_year = 2024\<rparr>])) 2 '' vs2bof'')
       = ''ledger_record_missing''"
proof -
  have h: "(2 :: bytes32) \<notin> tx_id ` set [\<lparr>tx_id = 1, tx_name = ''Bag A'', tx_color = ''Black'',
        tx_material = ''Togo Leather'', tx_price = 1000, tx_year = 2024\<rparr>]"
    by simp
  have l: "lookup [(2 :: bytes32, ''VS2BOF'')] 2 = Some ''VS2BOF''"
    by (simp add: lookup_def)
  have n: "toUpperCase ''VS2BOF'' = normalize '' vs2bof''"
    by (simp add: normalize_def toUpperCase_def to_upper_def trim_def is_space_def
        lower_letters_def upper_letters_def)
  from never_uploaded_reads_zero_and_is_fake [OF h, of "[(2 :: bytes32, ''VS2BOF'')]" "'' vs2bof''" "''VS2BOF''"]
    h l n show ?thesis
    by simp
qed

text \<open>
  The claim as stated gives the reason \<open>ledger_record_missing\<close> for every fingerprint
  never uploaded. A fingerprint that was neither uploaded nor registered is answered at
  step 2 already.
\<close>

theorem never_uploaded_unregistered_counterexample:
  "getProduct deployed 2 = ([], [], [], 0, 0)
   \<and> ev_reason (verify [] (contract_reader deployed) (2 :: bytes32) ''VS2BOF'') = ''no_registration''
   \<and> ''no_registration'' \<noteq> ''ledger_record_missing''"
  by (simp add: verify_def lookup_def getProduct_def deployed_def zero_Product_def)

section \<open>Properties of Keccak-256\<close>

lemma length_xor_lane: "length (xor_lane a b) = min (length a) (length b)"
  by (simp add: xor_lane_def)

lemma length_andn_lane: "length (andn_lane a b) = min (length a) (length b)"
  by (simp add: andn_lane_def)

lemma length_rotl: "length (rotl r l) = length l"
  by (cases "drop (8 - r div 8) l @ take (8 - r div 8) l = []") (auto simp: rotl_def Let_def)

lemma lanes8_map2_xor:
  assumes "lanes8 a" and "lanes8 b"
  shows "lanes8 (map2 xor_lane a b)"
proof -
  have "length (xor_lane x y) = 8" if "(x, y) \<in> set (zip a b)" for x y
  proof -
    from that have "x \<in> set a" "y \<in> set b"
      by (auto dest: set_zip_leftD set_zip_rightD)
    with assms show ?thesis
      by (simp add: lanes8_def list_all_iff length_xor_lane)
  qed
  then show ?thesis
    by (auto simp: lanes8_def list_all_iff)
qed

lemma lanes8_map2_andn:
  assumes "lanes8 a" and "lanes8 b"
  shows "lanes8 (map2 andn_lane a b)"
proof -
  have "length (andn_lane x y) = 8" if "(x, y) \<in> set (zip a b)" for x y
  proof -
    from that have "x \<in> set a" "y \<in> set b"
      by (auto dest: set_zip_leftD set_zip_rightD)
    with assms show ?thesis
      by (simp add: lanes8_def list_all_iff length_andn_lane)
  qed
  then show ?thesis
    by (auto simp: lanes8_def list_all_iff)
qed

lemma lanes8_rotate1: "lanes8 a \<Longrightarrow> lanes8 (rotate1 a)"
  by (simp add: lanes8_def list_all_iff)

lemma lanes8_map_rotl: "lanes8 a \<Longrightarrow> lanes8 (map (rotl r) a)"
  by (simp add: lanes8_def list_all_iff length_rotl)

lemma lanes8_last_butlast: "lanes8 a \<Longrightarrow> a \<noteq> [] \<Longrightarrow> lanes8 (last a # butlast a)"
  by (auto simp: lanes8_def list_all_iff dest: in_set_butlastD)

lemma length_last_butlast: "a \<noteq> [] \<Longrightarrow> length (last a # butlast a) = length a"
  by simp

lemma theta_D_shape:
  assumes "length C = 5" and "lanes8 C"
  shows "length (theta_D C) = 5 \<and> lanes8 (theta_D C)"
proof -
  from assms(1) have ne: "C \<noteq> []" by auto
  have "length (theta_D C) = 5"
    using assms(1) ne by (simp add: theta_D_def)
  moreover have "lanes8 (theta_D C)"
    unfolding theta_D_def
    by (intro lanes8_map2_xor lanes8_last_butlast lanes8_map_rotl lanes8_rotate1 assms(2) ne)
  ultimately show ?thesis by simp
qed

lemma foldl_columns_shape:
  "length c = 5 \<Longrightarrow> lanes8 c \<Longrightarrow> list_all (\<lambda>r. length r = 5 \<and> lanes8 r) rs \<Longrightarrow>
     length (foldl (map2 xor_lane) c rs) = 5 \<and> lanes8 (foldl (map2 xor_lane) c rs)"
  by (induction rs arbitrary: c) (simp_all add: lanes8_map2_xor)

lemma theta_shape: "state_shape A \<Longrightarrow> state_shape (theta A)"
proof -
  assume s: "state_shape A"
  then obtain r rs where A: "A = r # rs" by (cases A) (auto simp: state_shape_def)
  with s have "length r = 5" "lanes8 r" "list_all (\<lambda>r. length r = 5 \<and> lanes8 r) rs"
    by (auto simp: state_shape_def)
  from foldl_columns_shape [OF this] A
  have "length (foldl (map2 xor_lane) (hd A) (tl A)) = 5" "lanes8 (foldl (map2 xor_lane) (hd A) (tl A))"
    by simp_all
  from theta_D_shape [OF this]
  have D: "length (theta_D (foldl (map2 xor_lane) (hd A) (tl A))) = 5"
    "lanes8 (theta_D (foldl (map2 xor_lane) (hd A) (tl A)))"
    by simp_all
  from s D show ?thesis
    by (auto simp: state_shape_def theta_def list_all_iff lanes8_map2_xor)
qed

lemma chi_row_shape: "length r = 5 \<Longrightarrow> lanes8 r \<Longrightarrow> length (chi_row r) = 5 \<and> lanes8 (chi_row r)"
  by (simp add: chi_row_def lanes8_map2_xor lanes8_map2_andn lanes8_rotate1)

lemma chi_shape: "state_shape A \<Longrightarrow> state_shape (map chi_row A)"
  by (auto simp: state_shape_def list_all_iff chi_row_shape)

lemma rows_of_shape:
  "length xs = 5 * k \<Longrightarrow> lanes8 xs \<Longrightarrow>
     length (rows_of k xs) = k \<and> list_all (\<lambda>r. length r = 5 \<and> lanes8 r) (rows_of k xs)"
proof (induction k arbitrary: xs)
  case 0
  then show ?case by simp
next
  case (Suc k)
  have "length (drop 5 xs) = 5 * k" using Suc.prems(1) by simp
  moreover have "lanes8 (drop 5 xs)"
    using Suc.prems(2) by (auto simp: lanes8_def list_all_iff dest: in_set_dropD)
  ultimately have "length (rows_of k (drop 5 xs)) = k
      \<and> list_all (\<lambda>r. length r = 5 \<and> lanes8 r) (rows_of k (drop 5 xs))"
    by (rule Suc.IH)
  moreover have "length (take 5 xs) = 5" using Suc.prems(1) by simp
  moreover have "lanes8 (take 5 xs)"
    using Suc.prems(2) by (auto simp: lanes8_def list_all_iff dest: in_set_takeD)
  ultimately show ?case by simp
qed

lemma rho_pi_source_bound: "(j mod 5 + 3 * (j div 5)) mod 5 + 5 * (j mod 5) < (25 :: nat)"
proof -
  have "(j mod 5 + 3 * (j div 5)) mod 5 < 5" and "j mod 5 < 5"
    by simp_all
  then show ?thesis by arith
qed

lemma rho_pi_table_shape:
  "length rho_pi_table = 25 \<and> list_all (\<lambda>(s, r). s < 25) rho_pi_table"
  by (simp add: rho_pi_table_def list_all_iff Let_def rho_pi_source_bound)

lemma concat_shape: "state_shape A \<Longrightarrow> length (concat A) = 25 \<and> lanes8 (concat A)"
proof -
  assume "state_shape A"
  then have l: "length A = 5" and r: "\<forall>r\<in>set A. length r = 5 \<and> lanes8 r"
    by (auto simp: state_shape_def list_all_iff)
  have "length (concat A) = sum_list (map length A)" by (simp add: length_concat)
  also have "map length A = map (\<lambda>_. 5 :: nat) A" using r by simp
  also have "sum_list (map (\<lambda>_. 5 :: nat) A) = 25" using l by (simp add: sum_list_triv)
  finally have "length (concat A) = 25" .
  moreover have "lanes8 (concat A)" using r by (auto simp: lanes8_def list_all_iff)
  ultimately show ?thesis by simp
qed

lemma rho_pi_shape: "state_shape A \<Longrightarrow> state_shape (rho_pi rho_pi_table A)"
proof -
  assume s: "state_shape A"
  let ?xs = "map (\<lambda>(s, r). rotl r (concat A ! s)) rho_pi_table"
  from concat_shape [OF s] have c: "length (concat A) = 25" "lanes8 (concat A)" by simp_all
  have "length ?xs = 5 * 5" using rho_pi_table_shape by simp
  moreover have "lanes8 ?xs"
  proof -
    have "length (concat A ! a) = 8" if "(a, b) \<in> set rho_pi_table" for a b
    proof -
      from that rho_pi_table_shape have "a < 25" by (auto simp: list_all_iff)
      with c(1) have "concat A ! a \<in> set (concat A)" by (simp only: nth_mem)
      with c(2) show ?thesis by (auto simp: lanes8_def list_all_iff)
    qed
    then show ?thesis
      by (auto simp: lanes8_def list_all_iff length_rotl)
  qed
  ultimately have "length (rows_of 5 ?xs) = 5
      \<and> list_all (\<lambda>r. length r = 5 \<and> lanes8 r) (rows_of 5 ?xs)"
    by (rule rows_of_shape)
  then show ?thesis by (simp add: state_shape_def rho_pi_def)
qed

lemma iota_shape: "length c = 8 \<Longrightarrow> state_shape A \<Longrightarrow> state_shape (iota c A)"
  by (auto simp: iota_def state_shape_def lanes8_def length_xor_lane split: list.splits)

lemma keccak_round_shape:
  "length c = 8 \<Longrightarrow> state_shape A \<Longrightarrow> state_shape (keccak_round rho_pi_table A c)"
  by (simp add: keccak_round_def iota_shape chi_shape rho_pi_shape theta_shape)

lemma foldl_round_shape:
  "list_all (\<lambda>c. length c = 8) cs \<Longrightarrow> state_shape A \<Longrightarrow>
     state_shape (foldl (keccak_round rho_pi_table) A cs)"
  by (induction cs arbitrary: A) (simp_all add: keccak_round_shape)

lemma round_constants_shape: "list_all (\<lambda>c. length c = 8) round_constants"
  by (simp add: round_constants_def)

lemma keccak_f_shape: "state_shape A \<Longrightarrow> state_shape (keccak_f A)"
  by (simp add: keccak_f_def foldl_round_shape round_constants_shape)

lemma lanes_of_shape:
  "length bs = 8 * k \<Longrightarrow> length (lanes_of k bs) = k \<and> lanes8 (lanes_of k bs)"
proof (induction k arbitrary: bs)
  case 0
  then show ?case by (simp add: lanes8_def)
next
  case (Suc k)
  have "length (drop 8 bs) = 8 * k" using Suc.prems by simp
  then have "length (lanes_of k (drop 8 bs)) = k \<and> lanes8 (lanes_of k (drop 8 bs))"
    by (rule Suc.IH)
  moreover have "length (take 8 bs) = 8" using Suc.prems by simp
  ultimately show ?case by (simp add: lanes8_def)
qed

lemma block_shape:
  assumes "136 \<le> length bs"
  shows "state_shape (rows_of 5 (lanes_of 25 (take 136 bs @ replicate 64 (CHR 0x00))))"
proof -
  have "length (take 136 bs @ replicate 64 (CHR 0x00)) = 8 * 25"
    using assms by simp
  from lanes_of_shape [OF this]
  have "length (lanes_of 25 (take 136 bs @ replicate 64 (CHR 0x00))) = 5 * 5"
    "lanes8 (lanes_of 25 (take 136 bs @ replicate 64 (CHR 0x00)))"
    by simp_all
  from rows_of_shape [OF this] show ?thesis
    by (simp add: state_shape_def)
qed

lemma xor_state_shape:
  assumes "state_shape A" and "state_shape B"
  shows "state_shape (map2 (map2 xor_lane) A B)"
proof -
  have "length (map2 xor_lane x y) = 5 \<and> lanes8 (map2 xor_lane x y)"
    if "(x, y) \<in> set (zip A B)" for x y
  proof -
    from that have "x \<in> set A" "y \<in> set B"
      by (auto dest: set_zip_leftD set_zip_rightD)
    with assms show ?thesis
      by (simp add: state_shape_def list_all_iff lanes8_map2_xor)
  qed
  with assms show ?thesis
    by (auto simp: state_shape_def list_all_iff)
qed

lemma absorb_shape: "state_shape A \<Longrightarrow> state_shape (absorb A bs)"
proof (induction A bs rule: absorb.induct)
  case (1 A bs)
  show ?case
  proof (cases "length bs < 136")
    case True
    with "1.prems" show ?thesis by (simp add: absorb.simps)
  next
    case False
    then have "136 \<le> length bs" by simp
    from block_shape [OF this] "1.prems"
    have "state_shape (keccak_f (map2 (map2 xor_lane) A
                     (rows_of 5 (lanes_of 25 (take 136 bs @ replicate 64 (CHR 0x00))))))"
      by (intro keccak_f_shape xor_state_shape)
    from "1.IH" [OF False this] False show ?thesis
      by (subst absorb.simps) simp
  qed
qed

lemma initial_shape: "state_shape (replicate 5 (replicate 5 (replicate 8 (CHR 0x00))))"
  by (simp add: state_shape_def lanes8_def list_all_iff)

lemma length_state_bytes: "state_shape A \<Longrightarrow> length (concat (concat A)) = 200"
proof -
  assume s: "state_shape A"
  from concat_shape [OF s] have l: "length (concat A) = 25" and r: "\<forall>l\<in>set (concat A). length l = 8"
    by (auto simp: lanes8_def list_all_iff)
  have "length (concat (concat A)) = sum_list (map length (concat A))" by (simp add: length_concat)
  also have "map length (concat A) = map (\<lambda>_. 8 :: nat) (concat A)" using r by simp
  also have "sum_list (map (\<lambda>_. 8 :: nat) (concat A)) = 200" using l by (simp add: sum_list_triv)
  finally show ?thesis .
qed

lemma length_keccak256: "length (keccak256 m) = 32"
  using length_state_bytes [OF absorb_shape [OF initial_shape, of "pad m"]]
  by (simp add: keccak256_def)

text \<open>
  The two known answers: the digest of the empty input, which is the library's
  \<open>SHA3_NULL\<close>, and the digest of \<open>abc\<close>.
\<close>

lemma keccak256_empty: "keccak256 [] = SHA3_NULL"
  unfolding SHA3_NULL_def by code_simp

lemma keccak256_abc:
  "keccak256 ''abc'' =
    [CHR 0x4E, CHR 0x03, CHR 0x65, CHR 0x7A, CHR 0xEA, CHR 0x45, CHR 0xA9, CHR 0x4F,
     CHR 0xC7, CHR 0xD4, CHR 0x7B, CHR 0xA8, CHR 0x26, CHR 0xC8, CHR 0xD6, CHR 0x67,
     CHR 0xC0, CHR 0xD1, CHR 0xE6, CHR 0xE3, CHR 0x3A, CHR 0x64, CHR 0xA0, CHR 0x36,
     CHR 0xEC, CHR 0x44, CHR 0xF5, CHR 0x8F, CHR 0xA1, CHR 0x2D, CHR 0x6C, CHR 0x45]"
  by code_simp

section \<open>Properties of the packed hash\<close>

lemma solidityPack_arg_uint:
  "solidityPack_arg (SolUint256 v) = Inr b \<longleftrightarrow>
     (\<exists>n. v = Some n \<and> 0 \<le> n \<and> n < uint256_limit \<and> b = uint256_bytes n)"
  by (auto simp: solidityPack_arg_def split: option.splits)

lemma solidityPack_arg_string: "solidityPack_arg (SolString t) = Inr b \<longleftrightarrow> b = t"
  by (auto simp: solidityPack_arg_def)

lemma abi_uint256_Inr: "abi_uint256 v = Inr n \<longleftrightarrow> v = Some n \<and> 0 \<le> n \<and> n < uint256_limit"
  by (auto simp: abi_uint256_def split: option.splits)

lemma solidityPack_Cons:
  "solidityPack (a # rest) = Inr bs \<longleftrightarrow>
     (\<exists>b bs'. solidityPack_arg a = Inr b \<and> solidityPack rest = Inr bs' \<and> bs = b @ bs')"
  by (auto split: sum.splits)

lemma solidityPack_Nil: "solidityPack [] = Inr bs \<longleftrightarrow> bs = []"
  by auto

lemma soliditySha3_Some:
  "soliditySha3 args = Inr (Some i) \<Longrightarrow>
     \<exists>bs. solidityPack args = Inr bs \<and> i = ''0x'' @ hex_lower (keccak256 bs)"
  by (auto simp: soliditySha3_def Let_def split: sum.splits if_splits)

lemma soliditySha3_five:
  assumes "soliditySha3 [SolString n, SolString c, SolString m, SolUint256 p, SolUint256 y] = Inr (Some i)"
  shows "\<exists>p' y'. p = Some p' \<and> y = Some y' \<and> 0 \<le> p' \<and> 0 \<le> y'
           \<and> i = ''0x'' @ hex_lower (derive n c m p' y')"
proof -
  from soliditySha3_Some [OF assms] obtain bs where
    b: "solidityPack [SolString n, SolString c, SolString m, SolUint256 p, SolUint256 y] = Inr bs"
    and i: "i = ''0x'' @ hex_lower (keccak256 bs)"
    by blast
  from b obtain p' y' where "p = Some p'" "y = Some y'" "0 \<le> p'" "0 \<le> y'"
    "bs = n @ c @ m @ uint256_bytes p' @ uint256_bytes y'"
    unfolding solidityPack_Cons solidityPack_Nil solidityPack_arg_string solidityPack_arg_uint
    by auto
  with i show ?thesis
    by (simp add: derive_def)
qed

lemma soliditySha3_six:
  assumes "soliditySha3 [SolString n, SolString c, SolString m, SolUint256 p, SolUint256 y, SolUint256 t]
             = Inr (Some i)"
  shows "\<exists>p' y' t'. p = Some p' \<and> y = Some y' \<and> t = Some t' \<and> 0 \<le> p' \<and> 0 \<le> y' \<and> 0 \<le> t'
           \<and> i = ''0x'' @ hex_lower (keccak256 (n @ c @ m @ uint256_bytes p' @ uint256_bytes y'
                                         @ uint256_bytes t'))"
proof -
  from soliditySha3_Some [OF assms] obtain bs where
    b: "solidityPack [SolString n, SolString c, SolString m, SolUint256 p, SolUint256 y, SolUint256 t] = Inr bs"
    and i: "i = ''0x'' @ hex_lower (keccak256 bs)"
    by blast
  from b obtain p' y' t' where "p = Some p'" "y = Some y'" "t = Some t'" "0 \<le> p'" "0 \<le> y'" "0 \<le> t'"
    "bs = n @ c @ m @ uint256_bytes p' @ uint256_bytes y' @ uint256_bytes t'"
    unfolding solidityPack_Cons solidityPack_Nil solidityPack_arg_string solidityPack_arg_uint
    by auto
  with i show ?thesis
    by simp
qed

section \<open>Properties of registration\<close>

text \<open>What an \<open>Upload\<close> among the effects of a registration says about the run.\<close>

lemma submit_part_005_upload:
  "Upload i n c m p y a \<in> set (fst (submit_part_005 env sender idHex name' color' material' price' year'))
     \<Longrightarrow> i = idHex \<and> n = name' \<and> c = color' \<and> m = material' \<and> price' = Some p \<and> year' = Some y"
  by (auto simp: submit_part_005_def Let_def abi_uint256_Inr split: sum.splits option.splits)

lemma register_try_part_005_upload:
  assumes "Upload i n c m p y a \<in> set (fst (register_try_part_005 env account form))"
  shows "prepare_fields env form = (n, c, m, Some p, Some y)
       \<and> soliditySha3 [SolString n, SolString c, SolString m, SolUint256 (Some p), SolUint256 (Some y)]
           = Inr (Some i)"
  using assms
  by (auto simp: register_try_part_005_def Let_def
           split: if_splits sum.splits prod.splits option.splits dest!: submit_part_005_upload)

lemma register_part_005_upload:
  assumes "Upload i n c m p y a \<in> set (snd (register_part_005 env account st))"
  shows "prepare_fields env (rq_form st) = (n, c, m, Some p, Some y)
       \<and> soliditySha3 [SolString n, SolString c, SolString m, SolUint256 (Some p), SolUint256 (Some y)]
           = Inr (Some i)"
proof -
  from assms have "Upload i n c m p y a \<in> set (fst (register_try_part_005 env account (rq_form st)))"
    by (auto simp: register_part_005_def split: if_splits prod.splits try_outcome.splits)
  then show ?thesis
    by (rule register_try_part_005_upload)
qed

lemma register_part_005_fingerprint:
  assumes "Upload i n c m p y a \<in> set (snd (register_part_005 env account st))"
  shows "i = ''0x'' @ hex_lower (derive n c m p y) \<and> 0 \<le> p \<and> 0 \<le> y"
  using soliditySha3_five [of n c m "Some p" "Some y" i] register_part_005_upload [OF assms]
  by auto

lemma register_part_005_year:
  assumes "f_year (rq_form st) = []"
    and "Upload i n c m p y a \<in> set (snd (register_part_005 env account st))"
  shows "y = current_year env"
  using register_part_005_upload [OF assms(2)] assms(1)
  by (simp add: prepare_fields_def Let_def)

lemma register_try_upload:
  assumes "Upload i n c m p y a \<in> set (fst (register_try env account form))"
  shows "n = f_name form \<and> c = or_else (f_color form) [] \<and> m = or_else (f_material form) []
       \<and> decimal_integer (f_price form) = Some p
       \<and> (if f_year form \<noteq> [] then js_Number (f_year form) else Some 0) = Some y
       \<and> a = account
       \<and> soliditySha3 [SolString n, SolString c, SolString m, SolUint256 (Some p),
            SolUint256 (decimal_integer (or_else (f_year form) ''0'')),
            SolUint256 (Some (int (now_seconds env)))] = Inr (Some i)"
  using assms
  by (auto simp: register_try_def Let_def abi_uint256_Inr
           split: sum.splits option.splits if_splits)

lemma RegisterPanel_register_upload:
  assumes "Upload i n c m p y a \<in> set (snd (RegisterPanel_register env account st))"
  shows "Upload i n c m p y a \<in> set (fst (register_try env account (rp_form st)))"
  using assms
  by (auto simp: RegisterPanel_register_def split: if_splits prod.splits option.splits)

lemma digit_not_space: "is_digit c \<Longrightarrow> \<not> is_space c"
  by (auto simp: is_digit_def is_space_def)

lemma trim_digits: "list_all is_digit t \<Longrightarrow> trim t = t"
proof (cases t)
  case Nil
  then show ?thesis by (simp add: trim_def)
next
  case (Cons c cs)
  assume d: "list_all is_digit t"
  have first: "\<not> is_space (hd t)" and final: "\<not> is_space (last t)"
    using d Cons by (auto simp: list_all_iff digit_not_space)
  have "dropWhile is_space t = t"
    using first Cons by simp
  moreover have "dropWhile is_space (rev t) = rev t"
    using final Cons by (simp only: dropWhile_eq_self_iff hd_rev) simp
  ultimately show ?thesis by (simp add: trim_def)
qed

lemma decimal_integer_1000: "decimal_integer ''1000'' = Some 1000"
  by (simp add: decimal_integer_def is_digit_def digits_value_def digit_value_def)

lemma decimal_integer_0: "decimal_integer ''0'' = Some 0"
  by (simp add: decimal_integer_def is_digit_def digits_value_def digit_value_def)

lemma RegisterPanel_register_fingerprint:
  assumes d: "decimal_form (rp_form rp)"
    and u: "Upload i n c m p y a \<in> set (snd (RegisterPanel_register env account rp))"
  shows "i = ''0x'' @ hex_lower (keccak256 (n @ c @ m @ uint256_bytes p @ uint256_bytes y
               @ uint256_bytes (int (now_seconds env))))
       \<and> (f_year (rp_form rp) = [] \<longrightarrow> y = 0)"
proof -
  let ?f = "rp_form rp"
  from register_try_upload [OF RegisterPanel_register_upload [OF u]]
  have yr: "(if f_year ?f \<noteq> [] then js_Number (f_year ?f) else Some 0) = Some y"
    and sh: "soliditySha3 [SolString n, SolString c, SolString m, SolUint256 (Some p),
            SolUint256 (decimal_integer (or_else (f_year ?f) ''0'')),
            SolUint256 (Some (int (now_seconds env)))] = Inr (Some i)"
    by blast+
  have same: "decimal_integer (or_else (f_year ?f) ''0'') = Some y"
  proof (cases "f_year ?f = []")
    case True
    with yr show ?thesis by (simp add: or_else_def decimal_integer_0)
  next
    case False
    from d have "trim (f_year ?f) = f_year ?f"
      by (simp add: decimal_form_def trim_digits)
    with False yr show ?thesis by (simp add: or_else_def js_Number_def)
  qed
  from soliditySha3_six [OF sh] same
  have "i = ''0x'' @ hex_lower (keccak256 (n @ c @ m @ uint256_bytes p @ uint256_bytes y
               @ uint256_bytes (int (now_seconds env))))"
    by auto
  moreover from yr have "f_year ?f = [] \<longrightarrow> y = 0" by (auto split: if_splits)
  ultimately show ?thesis by simp
qed

text \<open>
  The digests of the example, evaluated: the six fields of frontend/src/RegisterPanel.tsx
  at two seconds of the clock, and the five fields with the years 0 and 2025.
\<close>

lemma packed_v1_t0:
  "''Bag A'' @ ''Black'' @ ''Togo Leather'' @ uint256_bytes 1000 @ uint256_bytes 0 @ uint256_bytes 1700000000 =
    [CHR 0x42, CHR 0x61, CHR 0x67, CHR 0x20, CHR 0x41, CHR 0x42, CHR 0x6C, CHR 0x61,
     CHR 0x63, CHR 0x6B, CHR 0x54, CHR 0x6F, CHR 0x67, CHR 0x6F, CHR 0x20, CHR 0x4C,
     CHR 0x65, CHR 0x61, CHR 0x74, CHR 0x68, CHR 0x65, CHR 0x72, CHR 0x00, CHR 0x00,
     CHR 0x00, CHR 0x00, CHR 0x00, CHR 0x00, CHR 0x00, CHR 0x00, CHR 0x00, CHR 0x00,
     CHR 0x00, CHR 0x00, CHR 0x00, CHR 0x00, CHR 0x00, CHR 0x00, CHR 0x00, CHR 0x00,
     CHR 0x00, CHR 0x00, CHR 0x00, CHR 0x00, CHR 0x00, CHR 0x00, CHR 0x00, CHR 0x00,
     CHR 0x00, CHR 0x00, CHR 0x00, CHR 0x00, CHR 0x03, CHR 0xE8, CHR 0x00, CHR 0x00,
     CHR 0x00, CHR 0x00, CHR 0x00, CHR 0x00, CHR 0x00, CHR 0x00, CHR 0x00, CHR 0x00,
     CHR 0x00, CHR 0x00, CHR 0x00, CHR 0x00, CHR 0x00, CHR 0x00, CHR 0x00, CHR 0x00,
     CHR 0x00, CHR 0x00, CHR 0x00, CHR 0x00, CHR 0x00, CHR 0x00, CHR 0x00, CHR 0x00,
     CHR 0x00, CHR 0x00, CHR 0x00, CHR 0x00, CHR 0x00, CHR 0x00, CHR 0x00, CHR 0x00,
     CHR 0x00, CHR 0x00, CHR 0x00, CHR 0x00, CHR 0x00, CHR 0x00, CHR 0x00, CHR 0x00,
     CHR 0x00, CHR 0x00, CHR 0x00, CHR 0x00, CHR 0x00, CHR 0x00, CHR 0x00, CHR 0x00,
     CHR 0x00, CHR 0x00, CHR 0x00, CHR 0x00, CHR 0x00, CHR 0x00, CHR 0x00, CHR 0x00,
     CHR 0x00, CHR 0x00, CHR 0x65, CHR 0x53, CHR 0xF1, CHR 0x00]"
  by (simp add: uint256_bytes_def byte_of_int_def eval_nat_numeral)

lemma keccak256_v1_t0:
  "keccak256
    [CHR 0x42, CHR 0x61, CHR 0x67, CHR 0x20, CHR 0x41, CHR 0x42, CHR 0x6C, CHR 0x61,
     CHR 0x63, CHR 0x6B, CHR 0x54, CHR 0x6F, CHR 0x67, CHR 0x6F, CHR 0x20, CHR 0x4C,
     CHR 0x65, CHR 0x61, CHR 0x74, CHR 0x68, CHR 0x65, CHR 0x72, CHR 0x00, CHR 0x00,
     CHR 0x00, CHR 0x00, CHR 0x00, CHR 0x00, CHR 0x00, CHR 0x00, CHR 0x00, CHR 0x00,
     CHR 0x00, CHR 0x00, CHR 0x00, CHR 0x00, CHR 0x00, CHR 0x00, CHR 0x00, CHR 0x00,
     CHR 0x00, CHR 0x00, CHR 0x00, CHR 0x00, CHR 0x00, CHR 0x00, CHR 0x00, CHR 0x00,
     CHR 0x00, CHR 0x00, CHR 0x00, CHR 0x00, CHR 0x03, CHR 0xE8, CHR 0x00, CHR 0x00,
     CHR 0x00, CHR 0x00, CHR 0x00, CHR 0x00, CHR 0x00, CHR 0x00, CHR 0x00, CHR 0x00,
     CHR 0x00, CHR 0x00, CHR 0x00, CHR 0x00, CHR 0x00, CHR 0x00, CHR 0x00, CHR 0x00,
     CHR 0x00, CHR 0x00, CHR 0x00, CHR 0x00, CHR 0x00, CHR 0x00, CHR 0x00, CHR 0x00,
     CHR 0x00, CHR 0x00, CHR 0x00, CHR 0x00, CHR 0x00, CHR 0x00, CHR 0x00, CHR 0x00,
     CHR 0x00, CHR 0x00, CHR 0x00, CHR 0x00, CHR 0x00, CHR 0x00, CHR 0x00, CHR 0x00,
     CHR 0x00, CHR 0x00, CHR 0x00, CHR 0x00, CHR 0x00, CHR 0x00, CHR 0x00, CHR 0x00,
     CHR 0x00, CHR 0x00, CHR 0x00, CHR 0x00, CHR 0x00, CHR 0x00, CHR 0x00, CHR 0x00,
     CHR 0x00, CHR 0x00, CHR 0x65, CHR 0x53, CHR 0xF1, CHR 0x00] =
    [CHR 0xAF, CHR 0x91, CHR 0xA7, CHR 0x93, CHR 0x42, CHR 0xFC, CHR 0x90, CHR 0x17,
     CHR 0x87, CHR 0x4F, CHR 0x5B, CHR 0xD6, CHR 0x80, CHR 0x17, CHR 0x88, CHR 0x8A,
     CHR 0xD2, CHR 0x8C, CHR 0xC9, CHR 0xB1, CHR 0x2B, CHR 0x1B, CHR 0x66, CHR 0xDB,
     CHR 0x0A, CHR 0xD6, CHR 0x3E, CHR 0xD9, CHR 0x83, CHR 0x33, CHR 0x72, CHR 0xA3]"
  by code_simp

lemma fingerprint_v1_t0:
  "''0x'' @ hex_lower (keccak256 (''Bag A'' @ ''Black'' @ ''Togo Leather'' @ uint256_bytes 1000 @ uint256_bytes 0 @ uint256_bytes 1700000000)) =
     ''0xaf91a79342fc9017874f5bd68017888ad28cc9b12b1b66db0ad63ed9833372a3''"
  unfolding packed_v1_t0 keccak256_v1_t0 by (simp add: hex_lower_def)

lemma not_null_v1_t0:
  "keccak256 (''Bag A'' @ ''Black'' @ ''Togo Leather'' @ uint256_bytes 1000 @ uint256_bytes 0 @ uint256_bytes 1700000000) \<noteq> SHA3_NULL"
  unfolding packed_v1_t0 keccak256_v1_t0 by (simp add: SHA3_NULL_def)

lemma packed_v1_t1:
  "''Bag A'' @ ''Black'' @ ''Togo Leather'' @ uint256_bytes 1000 @ uint256_bytes 0 @ uint256_bytes 1700000001 =
    [CHR 0x42, CHR 0x61, CHR 0x67, CHR 0x20, CHR 0x41, CHR 0x42, CHR 0x6C, CHR 0x61,
     CHR 0x63, CHR 0x6B, CHR 0x54, CHR 0x6F, CHR 0x67, CHR 0x6F, CHR 0x20, CHR 0x4C,
     CHR 0x65, CHR 0x61, CHR 0x74, CHR 0x68, CHR 0x65, CHR 0x72, CHR 0x00, CHR 0x00,
     CHR 0x00, CHR 0x00, CHR 0x00, CHR 0x00, CHR 0x00, CHR 0x00, CHR 0x00, CHR 0x00,
     CHR 0x00, CHR 0x00, CHR 0x00, CHR 0x00, CHR 0x00, CHR 0x00, CHR 0x00, CHR 0x00,
     CHR 0x00, CHR 0x00, CHR 0x00, CHR 0x00, CHR 0x00, CHR 0x00, CHR 0x00, CHR 0x00,
     CHR 0x00, CHR 0x00, CHR 0x00, CHR 0x00, CHR 0x03, CHR 0xE8, CHR 0x00, CHR 0x00,
     CHR 0x00, CHR 0x00, CHR 0x00, CHR 0x00, CHR 0x00, CHR 0x00, CHR 0x00, CHR 0x00,
     CHR 0x00, CHR 0x00, CHR 0x00, CHR 0x00, CHR 0x00, CHR 0x00, CHR 0x00, CHR 0x00,
     CHR 0x00, CHR 0x00, CHR 0x00, CHR 0x00, CHR 0x00, CHR 0x00, CHR 0x00, CHR 0x00,
     CHR 0x00, CHR 0x00, CHR 0x00, CHR 0x00, CHR 0x00, CHR 0x00, CHR 0x00, CHR 0x00,
     CHR 0x00, CHR 0x00, CHR 0x00, CHR 0x00, CHR 0x00, CHR 0x00, CHR 0x00, CHR 0x00,
     CHR 0x00, CHR 0x00, CHR 0x00, CHR 0x00, CHR 0x00, CHR 0x00, CHR 0x00, CHR 0x00,
     CHR 0x00, CHR 0x00, CHR 0x00, CHR 0x00, CHR 0x00, CHR 0x00, CHR 0x00, CHR 0x00,
     CHR 0x00, CHR 0x00, CHR 0x65, CHR 0x53, CHR 0xF1, CHR 0x01]"
  by (simp add: uint256_bytes_def byte_of_int_def eval_nat_numeral)

lemma keccak256_v1_t1:
  "keccak256
    [CHR 0x42, CHR 0x61, CHR 0x67, CHR 0x20, CHR 0x41, CHR 0x42, CHR 0x6C, CHR 0x61,
     CHR 0x63, CHR 0x6B, CHR 0x54, CHR 0x6F, CHR 0x67, CHR 0x6F, CHR 0x20, CHR 0x4C,
     CHR 0x65, CHR 0x61, CHR 0x74, CHR 0x68, CHR 0x65, CHR 0x72, CHR 0x00, CHR 0x00,
     CHR 0x00, CHR 0x00, CHR 0x00, CHR 0x00, CHR 0x00, CHR 0x00, CHR 0x00, CHR 0x00,
     CHR 0x00, CHR 0x00, CHR 0x00, CHR 0x00, CHR 0x00, CHR 0x00, CHR 0x00, CHR 0x00,
     CHR 0x00, CHR 0x00, CHR 0x00, CHR 0x00, CHR 0x00, CHR 0x00, CHR 0x00, CHR 0x00,
     CHR 0x00, CHR 0x00, CHR 0x00, CHR 0x00, CHR 0x03, CHR 0xE8, CHR 0x00, CHR 0x00,
     CHR 0x00, CHR 0x00, CHR 0x00, CHR 0x00, CHR 0x00, CHR 0x00, CHR 0x00, CHR 0x00,
     CHR 0x00, CHR 0x00, CHR 0x00, CHR 0x00, CHR 0x00, CHR 0x00, CHR 0x00, CHR 0x00,
     CHR 0x00, CHR 0x00, CHR 0x00, CHR 0x00, CHR 0x00, CHR 0x00, CHR 0x00, CHR 0x00,
     CHR 0x00, CHR 0x00, CHR 0x00, CHR 0x00, CHR 0x00, CHR 0x00, CHR 0x00, CHR 0x00,
     CHR 0x00, CHR 0x00, CHR 0x00, CHR 0x00, CHR 0x00, CHR 0x00, CHR 0x00, CHR 0x00,
     CHR 0x00, CHR 0x00, CHR 0x00, CHR 0x00, CHR 0x00, CHR 0x00, CHR 0x00, CHR 0x00,
     CHR 0x00, CHR 0x00, CHR 0x00, CHR 0x00, CHR 0x00, CHR 0x00, CHR 0x00, CHR 0x00,
     CHR 0x00, CHR 0x00, CHR 0x65, CHR 0x53, CHR 0xF1, CHR 0x01] =
    [CHR 0x0E, CHR 0xAA, CHR 0xFC, CHR 0x71, CHR 0x44, CHR 0xB1, CHR 0xCB, CHR 0xBF,
     CHR 0x7A, CHR 0xE3, CHR 0x97, CHR 0x3D, CHR 0x8F, CHR 0x84, CHR 0x6B, CHR 0x9E,
     CHR 0x5A, CHR 0x2B, CHR 0x33, CHR 0xFE, CHR 0x06, CHR 0xC6, CHR 0x94, CHR 0xA9,
     CHR 0x31, CHR 0xA3, CHR 0x83, CHR 0x75, CHR 0x0C, CHR 0x0A, CHR 0xDA, CHR 0x11]"
  by code_simp

lemma fingerprint_v1_t1:
  "''0x'' @ hex_lower (keccak256 (''Bag A'' @ ''Black'' @ ''Togo Leather'' @ uint256_bytes 1000 @ uint256_bytes 0 @ uint256_bytes 1700000001)) =
     ''0x0eaafc7144b1cbbf7ae3973d8f846b9e5a2b33fe06c694a931a383750c0ada11''"
  unfolding packed_v1_t1 keccak256_v1_t1 by (simp add: hex_lower_def)

lemma not_null_v1_t1:
  "keccak256 (''Bag A'' @ ''Black'' @ ''Togo Leather'' @ uint256_bytes 1000 @ uint256_bytes 0 @ uint256_bytes 1700000001) \<noteq> SHA3_NULL"
  unfolding packed_v1_t1 keccak256_v1_t1 by (simp add: SHA3_NULL_def)

lemma packed_five_0:
  "''Bag A'' @ ''Black'' @ ''Togo Leather'' @ uint256_bytes 1000 @ uint256_bytes 0 =
    [CHR 0x42, CHR 0x61, CHR 0x67, CHR 0x20, CHR 0x41, CHR 0x42, CHR 0x6C, CHR 0x61,
     CHR 0x63, CHR 0x6B, CHR 0x54, CHR 0x6F, CHR 0x67, CHR 0x6F, CHR 0x20, CHR 0x4C,
     CHR 0x65, CHR 0x61, CHR 0x74, CHR 0x68, CHR 0x65, CHR 0x72, CHR 0x00, CHR 0x00,
     CHR 0x00, CHR 0x00, CHR 0x00, CHR 0x00, CHR 0x00, CHR 0x00, CHR 0x00, CHR 0x00,
     CHR 0x00, CHR 0x00, CHR 0x00, CHR 0x00, CHR 0x00, CHR 0x00, CHR 0x00, CHR 0x00,
     CHR 0x00, CHR 0x00, CHR 0x00, CHR 0x00, CHR 0x00, CHR 0x00, CHR 0x00, CHR 0x00,
     CHR 0x00, CHR 0x00, CHR 0x00, CHR 0x00, CHR 0x03, CHR 0xE8, CHR 0x00, CHR 0x00,
     CHR 0x00, CHR 0x00, CHR 0x00, CHR 0x00, CHR 0x00, CHR 0x00, CHR 0x00, CHR 0x00,
     CHR 0x00, CHR 0x00, CHR 0x00, CHR 0x00, CHR 0x00, CHR 0x00, CHR 0x00, CHR 0x00,
     CHR 0x00, CHR 0x00, CHR 0x00, CHR 0x00, CHR 0x00, CHR 0x00, CHR 0x00, CHR 0x00,
     CHR 0x00, CHR 0x00, CHR 0x00, CHR 0x00, CHR 0x00, CHR 0x00]"
  by (simp add: uint256_bytes_def byte_of_int_def eval_nat_numeral)

lemma keccak256_five_0:
  "keccak256
    [CHR 0x42, CHR 0x61, CHR 0x67, CHR 0x20, CHR 0x41, CHR 0x42, CHR 0x6C, CHR 0x61,
     CHR 0x63, CHR 0x6B, CHR 0x54, CHR 0x6F, CHR 0x67, CHR 0x6F, CHR 0x20, CHR 0x4C,
     CHR 0x65, CHR 0x61, CHR 0x74, CHR 0x68, CHR 0x65, CHR 0x72, CHR 0x00, CHR 0x00,
     CHR 0x00, CHR 0x00, CHR 0x00, CHR 0x00, CHR 0x00, CHR 0x00, CHR 0x00, CHR 0x00,
     CHR 0x00, CHR 0x00, CHR 0x00, CHR 0x00, CHR 0x00, CHR 0x00, CHR 0x00, CHR 0x00,
     CHR 0x00, CHR 0x00, CHR 0x00, CHR 0x00, CHR 0x00, CHR 0x00, CHR 0x00, CHR 0x00,
     CHR 0x00, CHR 0x00, CHR 0x00, CHR 0x00, CHR 0x03, CHR 0xE8, CHR 0x00, CHR 0x00,
     CHR 0x00, CHR 0x00, CHR 0x00, CHR 0x00, CHR 0x00, CHR 0x00, CHR 0x00, CHR 0x00,
     CHR 0x00, CHR 0x00, CHR 0x00, CHR 0x00, CHR 0x00, CHR 0x00, CHR 0x00, CHR 0x00,
     CHR 0x00, CHR 0x00, CHR 0x00, CHR 0x00, CHR 0x00, CHR 0x00, CHR 0x00, CHR 0x00,
     CHR 0x00, CHR 0x00, CHR 0x00, CHR 0x00, CHR 0x00, CHR 0x00] =
    [CHR 0x91, CHR 0x96, CHR 0xB6, CHR 0xB4, CHR 0x6A, CHR 0xF4, CHR 0x19, CHR 0xC9,
     CHR 0x34, CHR 0x38, CHR 0x06, CHR 0x9A, CHR 0x99, CHR 0x41, CHR 0x08, CHR 0xB8,
     CHR 0xE4, CHR 0xFD, CHR 0xF1, CHR 0xB6, CHR 0x3D, CHR 0xC9, CHR 0xC2, CHR 0xCC,
     CHR 0xB1, CHR 0x69, CHR 0x7E, CHR 0x77, CHR 0xD2, CHR 0xCF, CHR 0xD4, CHR 0xEF]"
  by code_simp

lemma fingerprint_five_0:
  "''0x'' @ hex_lower (keccak256 (''Bag A'' @ ''Black'' @ ''Togo Leather'' @ uint256_bytes 1000 @ uint256_bytes 0)) =
     ''0x9196b6b46af419c93438069a994108b8e4fdf1b63dc9c2ccb1697e77d2cfd4ef''"
  unfolding packed_five_0 keccak256_five_0 by (simp add: hex_lower_def)

lemma not_null_five_0:
  "keccak256 (''Bag A'' @ ''Black'' @ ''Togo Leather'' @ uint256_bytes 1000 @ uint256_bytes 0) \<noteq> SHA3_NULL"
  unfolding packed_five_0 keccak256_five_0 by (simp add: SHA3_NULL_def)

lemma packed_five_2025:
  "''Bag A'' @ ''Black'' @ ''Togo Leather'' @ uint256_bytes 1000 @ uint256_bytes 2025 =
    [CHR 0x42, CHR 0x61, CHR 0x67, CHR 0x20, CHR 0x41, CHR 0x42, CHR 0x6C, CHR 0x61,
     CHR 0x63, CHR 0x6B, CHR 0x54, CHR 0x6F, CHR 0x67, CHR 0x6F, CHR 0x20, CHR 0x4C,
     CHR 0x65, CHR 0x61, CHR 0x74, CHR 0x68, CHR 0x65, CHR 0x72, CHR 0x00, CHR 0x00,
     CHR 0x00, CHR 0x00, CHR 0x00, CHR 0x00, CHR 0x00, CHR 0x00, CHR 0x00, CHR 0x00,
     CHR 0x00, CHR 0x00, CHR 0x00, CHR 0x00, CHR 0x00, CHR 0x00, CHR 0x00, CHR 0x00,
     CHR 0x00, CHR 0x00, CHR 0x00, CHR 0x00, CHR 0x00, CHR 0x00, CHR 0x00, CHR 0x00,
     CHR 0x00, CHR 0x00, CHR 0x00, CHR 0x00, CHR 0x03, CHR 0xE8, CHR 0x00, CHR 0x00,
     CHR 0x00, CHR 0x00, CHR 0x00, CHR 0x00, CHR 0x00, CHR 0x00, CHR 0x00, CHR 0x00,
     CHR 0x00, CHR 0x00, CHR 0x00, CHR 0x00, CHR 0x00, CHR 0x00, CHR 0x00, CHR 0x00,
     CHR 0x00, CHR 0x00, CHR 0x00, CHR 0x00, CHR 0x00, CHR 0x00, CHR 0x00, CHR 0x00,
     CHR 0x00, CHR 0x00, CHR 0x00, CHR 0x00, CHR 0x07, CHR 0xE9]"
  by (simp add: uint256_bytes_def byte_of_int_def eval_nat_numeral)

lemma keccak256_five_2025:
  "keccak256
    [CHR 0x42, CHR 0x61, CHR 0x67, CHR 0x20, CHR 0x41, CHR 0x42, CHR 0x6C, CHR 0x61,
     CHR 0x63, CHR 0x6B, CHR 0x54, CHR 0x6F, CHR 0x67, CHR 0x6F, CHR 0x20, CHR 0x4C,
     CHR 0x65, CHR 0x61, CHR 0x74, CHR 0x68, CHR 0x65, CHR 0x72, CHR 0x00, CHR 0x00,
     CHR 0x00, CHR 0x00, CHR 0x00, CHR 0x00, CHR 0x00, CHR 0x00, CHR 0x00, CHR 0x00,
     CHR 0x00, CHR 0x00, CHR 0x00, CHR 0x00, CHR 0x00, CHR 0x00, CHR 0x00, CHR 0x00,
     CHR 0x00, CHR 0x00, CHR 0x00, CHR 0x00, CHR 0x00, CHR 0x00, CHR 0x00, CHR 0x00,
     CHR 0x00, CHR 0x00, CHR 0x00, CHR 0x00, CHR 0x03, CHR 0xE8, CHR 0x00, CHR 0x00,
     CHR 0x00, CHR 0x00, CHR 0x00, CHR 0x00, CHR 0x00, CHR 0x00, CHR 0x00, CHR 0x00,
     CHR 0x00, CHR 0x00, CHR 0x00, CHR 0x00, CHR 0x00, CHR 0x00, CHR 0x00, CHR 0x00,
     CHR 0x00, CHR 0x00, CHR 0x00, CHR 0x00, CHR 0x00, CHR 0x00, CHR 0x00, CHR 0x00,
     CHR 0x00, CHR 0x00, CHR 0x00, CHR 0x00, CHR 0x07, CHR 0xE9] =
    [CHR 0xCF, CHR 0x88, CHR 0x1E, CHR 0x6E, CHR 0x26, CHR 0x8F, CHR 0xE1, CHR 0xDF,
     CHR 0x0F, CHR 0xA2, CHR 0x7E, CHR 0x52, CHR 0xAD, CHR 0x79, CHR 0xA1, CHR 0x7B,
     CHR 0xAA, CHR 0x62, CHR 0x26, CHR 0x2B, CHR 0x46, CHR 0x83, CHR 0x65, CHR 0x35,
     CHR 0x6E, CHR 0x7A, CHR 0x6A, CHR 0xFD, CHR 0x79, CHR 0xA5, CHR 0x09, CHR 0x6C]"
  by code_simp

lemma fingerprint_five_2025:
  "''0x'' @ hex_lower (keccak256 (''Bag A'' @ ''Black'' @ ''Togo Leather'' @ uint256_bytes 1000 @ uint256_bytes 2025)) =
     ''0xcf881e6e268fe1df0fa27e52ad79a17baa62262b468365356e7a6afd79a5096c''"
  unfolding packed_five_2025 keccak256_five_2025 by (simp add: hex_lower_def)

lemma not_null_five_2025:
  "keccak256 (''Bag A'' @ ''Black'' @ ''Togo Leather'' @ uint256_bytes 1000 @ uint256_bytes 2025) \<noteq> SHA3_NULL"
  unfolding packed_five_2025 keccak256_five_2025 by (simp add: SHA3_NULL_def)

lemma soliditySha3_v1_t0:
  "soliditySha3 [SolString ''Bag A'', SolString ''Black'', SolString ''Togo Leather'',
      SolUint256 (Some 1000), SolUint256 (Some 0), SolUint256 (Some 1700000000)]
     = Inr (Some ''0xaf91a79342fc9017874f5bd68017888ad28cc9b12b1b66db0ad63ed9833372a3'')"
proof -
  have "solidityPack [SolString ''Bag A'', SolString ''Black'', SolString ''Togo Leather'',
      SolUint256 (Some 1000), SolUint256 (Some 0), SolUint256 (Some 1700000000)]
     = Inr (''Bag A'' @ ''Black'' @ ''Togo Leather'' @ uint256_bytes 1000 @ uint256_bytes 0
             @ uint256_bytes 1700000000)"
    by (simp add: solidityPack_arg_def uint256_limit_def)
  then show ?thesis
    using fingerprint_v1_t0 not_null_v1_t0 by (simp add: soliditySha3_def Let_def)
qed

lemma soliditySha3_v1_t1:
  "soliditySha3 [SolString ''Bag A'', SolString ''Black'', SolString ''Togo Leather'',
      SolUint256 (Some 1000), SolUint256 (Some 0), SolUint256 (Some 1700000001)]
     = Inr (Some ''0x0eaafc7144b1cbbf7ae3973d8f846b9e5a2b33fe06c694a931a383750c0ada11'')"
proof -
  have "solidityPack [SolString ''Bag A'', SolString ''Black'', SolString ''Togo Leather'',
      SolUint256 (Some 1000), SolUint256 (Some 0), SolUint256 (Some 1700000001)]
     = Inr (''Bag A'' @ ''Black'' @ ''Togo Leather'' @ uint256_bytes 1000 @ uint256_bytes 0
             @ uint256_bytes 1700000001)"
    by (simp add: solidityPack_arg_def uint256_limit_def)
  then show ?thesis
    using fingerprint_v1_t1 not_null_v1_t1 by (simp add: soliditySha3_def Let_def)
qed

lemma soliditySha3_five_2025:
  "soliditySha3 [SolString ''Bag A'', SolString ''Black'', SolString ''Togo Leather'',
      SolUint256 (Some 1000), SolUint256 (Some 2025)]
     = Inr (Some ''0xcf881e6e268fe1df0fa27e52ad79a17baa62262b468365356e7a6afd79a5096c'')"
proof -
  have "solidityPack [SolString ''Bag A'', SolString ''Black'', SolString ''Togo Leather'',
      SolUint256 (Some 1000), SolUint256 (Some 2025)]
     = Inr (''Bag A'' @ ''Black'' @ ''Togo Leather'' @ uint256_bytes 1000 @ uint256_bytes 2025)"
    by (simp add: solidityPack_arg_def uint256_limit_def)
  then show ?thesis
    using fingerprint_five_2025 not_null_five_2025 by (simp add: soliditySha3_def Let_def)
qed

lemma derive_year_0:
  "''0x'' @ hex_lower (derive ''Bag A'' ''Black'' ''Togo Leather'' 1000 0) = ''0x9196b6b46af419c93438069a994108b8e4fdf1b63dc9c2ccb1697e77d2cfd4ef''"
  using fingerprint_five_0 by (simp add: derive_def)

lemma derive_year_2025:
  "''0x'' @ hex_lower (derive ''Bag A'' ''Black'' ''Togo Leather'' 1000 2025) = ''0xcf881e6e268fe1df0fa27e52ad79a17baa62262b468365356e7a6afd79a5096c''"
  using fingerprint_five_2025 by (simp add: derive_def)

lemma derive_bytes_2025:
  "bytes32_of_bytes (derive ''Bag A'' ''Black'' ''Togo Leather'' 1000 2025)
     = 0xcf881e6e268fe1df0fa27e52ad79a17baa62262b468365356e7a6afd79a5096c"
  unfolding derive_def packed_five_2025 keccak256_five_2025
  by (simp add: bytes32_of_bytes_def)

text \<open>The runs of the example.\<close>

lemma example_run_t0:
  "snd (RegisterPanel_register example_env admin example_panel) =
     [Upload ''0xaf91a79342fc9017874f5bd68017888ad28cc9b12b1b66db0ad63ed9833372a3'' ''Bag A'' ''Black'' ''Togo Leather'' 1000 0 admin,
      OnQr (''http://localhost:5173/verify/?id='' @ ''0xaf91a79342fc9017874f5bd68017888ad28cc9b12b1b66db0ad63ed9833372a3'') ''0xaf91a79342fc9017874f5bd68017888ad28cc9b12b1b66db0ad63ed9833372a3'',
      Alert (''Registered. Product ID:'' @ [CHR 0x0A] @ ''0xaf91a79342fc9017874f5bd68017888ad28cc9b12b1b66db0ad63ed9833372a3'')]"
  by (simp add: RegisterPanel_register_def register_try_def example_env_def example_form_def
      example_panel_def admin_def or_else_def decimal_integer_1000 decimal_integer_0 abi_uint256_def
      uint256_limit_def soliditySha3_v1_t0)

lemma example_run_t1:
  "snd (RegisterPanel_register (example_env\<lparr>now_seconds := 1700000001\<rparr>) admin example_panel) =
     [Upload ''0x0eaafc7144b1cbbf7ae3973d8f846b9e5a2b33fe06c694a931a383750c0ada11'' ''Bag A'' ''Black'' ''Togo Leather'' 1000 0 admin,
      OnQr (''http://localhost:5173/verify/?id='' @ ''0x0eaafc7144b1cbbf7ae3973d8f846b9e5a2b33fe06c694a931a383750c0ada11'') ''0x0eaafc7144b1cbbf7ae3973d8f846b9e5a2b33fe06c694a931a383750c0ada11'',
      Alert (''Registered. Product ID:'' @ [CHR 0x0A] @ ''0x0eaafc7144b1cbbf7ae3973d8f846b9e5a2b33fe06c694a931a383750c0ada11'')]"
  by (simp add: RegisterPanel_register_def register_try_def example_env_def example_form_def
      example_panel_def admin_def or_else_def decimal_integer_1000 decimal_integer_0 abi_uint256_def
      uint256_limit_def soliditySha3_v1_t1)

lemma parseInt_1000: "parseInt ''1000'' = Some 1000"
  by (simp add: parseInt_def is_space_def is_digit_def digits_value_def digit_value_def)

lemma parseInt_2025: "parseInt ''2025'' = Some 2025"
  by (simp add: parseInt_def is_space_def is_digit_def digits_value_def digit_value_def)

lemma example_env_simps:
  "has_wallet example_env" "wallet_accounts example_env = Inr [admin]"
  "current_year example_env = 2025" "now_seconds example_env = 1700000000"
  "contract example_env = Inr \<lparr>c_abi = Some ''[]'', c_address = ''0x5FbDB2315678afecb367f032d93F642f64180aa3''\<rparr>"
  "send_error example_env = None"
  "codes_register example_env q = Responded 200 [] (Inr \<lparr>shortCode = ''VS2BOF''\<rparr>)"
  "public_verify_base example_env = ''http://localhost:5173/verify''"
  by (simp_all add: example_env_def)

lemma example_fields:
  "prepare_fields example_env example_form = (''Bag A'', ''Black'', ''Togo Leather'', Some 1000, Some 2025)"
  by (simp add: prepare_fields_def example_env_simps example_form_def trim_def is_space_def is_digit_def
      parseInt_1000 Let_def)

lemma example_fields_2025:
  "prepare_fields (example_env\<lparr>current_year := 2030\<rparr>) (example_form\<lparr>f_year := ''2025''\<rparr>)
     = (''Bag A'', ''Black'', ''Togo Leather'', Some 1000, Some 2025)"
  by (simp add: prepare_fields_def example_form_def trim_def is_space_def is_digit_def
      parseInt_1000 parseInt_2025 Let_def)

lemma example_submit:
  "a \<noteq> [] \<Longrightarrow>
   submit_part_005 (example_env\<lparr>current_year := cy\<rparr>) a ''0xcf881e6e268fe1df0fa27e52ad79a17baa62262b468365356e7a6afd79a5096c'' ''Bag A'' ''Black'' ''Togo Leather''
       (Some 1000) (Some 2025) =
     ([Upload ''0xcf881e6e268fe1df0fa27e52ad79a17baa62262b468365356e7a6afd79a5096c'' ''Bag A'' ''Black'' ''Togo Leather'' 1000 2025 a,
       Sent (Post ''/codes/register'' [(''product_id'', ''0xcf881e6e268fe1df0fa27e52ad79a17baa62262b468365356e7a6afd79a5096c'')]),
       OnQr ''http://localhost:5173/verify?code=VS2BOF'' ''0xcf881e6e268fe1df0fa27e52ad79a17baa62262b468365356e7a6afd79a5096c''],
      Done ''0xcf881e6e268fe1df0fa27e52ad79a17baa62262b468365356e7a6afd79a5096c'' ''VS2BOF'')"
  by (simp add: submit_part_005_def example_env_simps Let_def abi_uint256_def uint256_limit_def
      fetchJSON_def encodeURIComponent_def uri_unreserved_def upper_letters_def lower_letters_def)

lemma example_run_part_005:
  "snd (register_part_005 example_env [] example_panel_part_005) =
     [Upload ''0xcf881e6e268fe1df0fa27e52ad79a17baa62262b468365356e7a6afd79a5096c'' ''Bag A'' ''Black'' ''Togo Leather'' 1000 2025 admin,
      Sent (Post ''/codes/register'' [(''product_id'', ''0xcf881e6e268fe1df0fa27e52ad79a17baa62262b468365356e7a6afd79a5096c'')]),
      OnQr ''http://localhost:5173/verify?code=VS2BOF'' ''0xcf881e6e268fe1df0fa27e52ad79a17baa62262b468365356e7a6afd79a5096c'']"
proof -
  have a: "admin \<noteq> []" by (simp add: admin_def)
  have e: "example_env\<lparr>current_year := 2025\<rparr> = example_env"
    by (simp add: example_env_def)
  show ?thesis
    using example_submit [OF a, of 2025] a
    by (simp add: register_part_005_def register_try_part_005_def example_panel_part_005_def
        example_fields soliditySha3_five_2025 example_env_simps or_else_def e)
qed

lemma example_run_part_005_2025:
  "snd (register_part_005 (example_env\<lparr>current_year := 2030\<rparr>) ''0x70997970C51812dc3A010C7d01b50e0d17dc79C8''
          (example_panel_part_005\<lparr>rq_form := example_form\<lparr>f_year := ''2025''\<rparr>\<rparr>)) =
     [Upload ''0xcf881e6e268fe1df0fa27e52ad79a17baa62262b468365356e7a6afd79a5096c'' ''Bag A'' ''Black'' ''Togo Leather'' 1000 2025 ''0x70997970C51812dc3A010C7d01b50e0d17dc79C8'',
      Sent (Post ''/codes/register'' [(''product_id'', ''0xcf881e6e268fe1df0fa27e52ad79a17baa62262b468365356e7a6afd79a5096c'')]),
      OnQr ''http://localhost:5173/verify?code=VS2BOF'' ''0xcf881e6e268fe1df0fa27e52ad79a17baa62262b468365356e7a6afd79a5096c'']"
proof -
  have a: "''0x70997970C51812dc3A010C7d01b50e0d17dc79C8'' \<noteq> []" by simp
  show ?thesis
    using example_submit [OF a, of 2030]
    by (simp add: register_part_005_def register_try_part_005_def example_panel_part_005_def
        example_fields_2025 soliditySha3_five_2025 example_env_simps or_else_def)
qed

lemma example_decimal_form: "decimal_form example_form"
  by (simp add: decimal_form_def example_form_def is_digit_def)

lemma example_upload_t0:
  "Upload ''0xaf91a79342fc9017874f5bd68017888ad28cc9b12b1b66db0ad63ed9833372a3'' ''Bag A'' ''Black'' ''Togo Leather'' 1000 0 admin
     \<in> set (snd (RegisterPanel_register example_env admin example_panel))"
  by (simp add: example_run_t0)

lemma example_upload_t1:
  "Upload ''0x0eaafc7144b1cbbf7ae3973d8f846b9e5a2b33fe06c694a931a383750c0ada11'' ''Bag A'' ''Black'' ''Togo Leather'' 1000 0 admin
     \<in> set (snd (RegisterPanel_register (example_env\<lparr>now_seconds := 1700000001\<rparr>) admin example_panel))"
  by (simp add: example_run_t1)

lemma example_upload_part_005:
  "Upload ''0xcf881e6e268fe1df0fa27e52ad79a17baa62262b468365356e7a6afd79a5096c'' ''Bag A'' ''Black'' ''Togo Leather'' 1000 2025 admin
     \<in> set (snd (register_part_005 example_env [] example_panel_part_005))"
  by (simp add: example_run_part_005)

lemma example_upload_part_005_2025:
  "Upload ''0xcf881e6e268fe1df0fa27e52ad79a17baa62262b468365356e7a6afd79a5096c'' ''Bag A'' ''Black'' ''Togo Leather'' 1000 2025 ''0x70997970C51812dc3A010C7d01b50e0d17dc79C8''
     \<in> set (snd (register_part_005 (example_env\<lparr>current_year := 2030\<rparr>) ''0x70997970C51812dc3A010C7d01b50e0d17dc79C8''
          (example_panel_part_005\<lparr>rq_form := example_form\<lparr>f_year := ''2025''\<rparr>\<rparr>)))"
  by (simp add: example_run_part_005_2025)

text \<open>
  Claim C1, as the code has it. In the RegisterPanel of unnamed/part_005 the
  fingerprint under which a product is uploaded is a function of the five uploaded
  attributes alone: two calls that upload the same name, color, material, price and year
  upload them under the same fingerprint, whatever the clock, the account, the wallet or
  the state of the panel. In frontend/src/RegisterPanel.tsx the time of the call in
  seconds is hashed as well: two calls with the same attributes agree on the fingerprint
  when they also run in the same second.
\<close>

theorem fingerprint_determined_by_attributes:
  "(Upload i n c m p y a \<in> set (snd (register_part_005 env account st)) \<and>
    Upload i' n c m p y a' \<in> set (snd (register_part_005 env' account' st')) \<longrightarrow> i = i')
   \<and> (decimal_form (rp_form rp) \<and> decimal_form (rp_form rp') \<and>
      Upload j n c m p y a \<in> set (snd (RegisterPanel_register env account rp)) \<and>
      Upload j' n c m p y a' \<in> set (snd (RegisterPanel_register env' account' rp')) \<and>
      now_seconds env = now_seconds env' \<longrightarrow> j = j')"
proof (intro conjI impI)
  assume "Upload i n c m p y a \<in> set (snd (register_part_005 env account st)) \<and>
    Upload i' n c m p y a' \<in> set (snd (register_part_005 env' account' st'))"
  then show "i = i'"
    using register_part_005_fingerprint [of i n c m p y a env account st]
      register_part_005_fingerprint [of i' n c m p y a' env' account' st']
    by simp
next
  assume "decimal_form (rp_form rp) \<and> decimal_form (rp_form rp') \<and>
      Upload j n c m p y a \<in> set (snd (RegisterPanel_register env account rp)) \<and>
      Upload j' n c m p y a' \<in> set (snd (RegisterPanel_register env' account' rp')) \<and>
      now_seconds env = now_seconds env'"
  then show "j = j'"
    using RegisterPanel_register_fingerprint [of rp j n c m p y a env account]
      RegisterPanel_register_fingerprint [of rp' j' n c m p y a' env' account']
    by simp
qed

theorem fingerprint_determined_by_attributes_witness:
  "Upload ''0xcf881e6e268fe1df0fa27e52ad79a17baa62262b468365356e7a6afd79a5096c'' ''Bag A'' ''Black'' ''Togo Leather'' 1000 2025 admin
     \<in> set (snd (register_part_005 example_env [] example_panel_part_005))
   \<and> Upload ''0xcf881e6e268fe1df0fa27e52ad79a17baa62262b468365356e7a6afd79a5096c'' ''Bag A'' ''Black'' ''Togo Leather'' 1000 2025 ''0x70997970C51812dc3A010C7d01b50e0d17dc79C8''
     \<in> set (snd (register_part_005 (example_env\<lparr>current_year := 2030\<rparr>) ''0x70997970C51812dc3A010C7d01b50e0d17dc79C8''
          (example_panel_part_005\<lparr>rq_form := example_form\<lparr>f_year := ''2025''\<rparr>\<rparr>)))
   \<and> decimal_form (rp_form example_panel)
   \<and> Upload ''0xaf91a79342fc9017874f5bd68017888ad28cc9b12b1b66db0ad63ed9833372a3'' ''Bag A'' ''Black'' ''Togo Leather'' 1000 0 admin
     \<in> set (snd (RegisterPanel_register example_env admin example_panel))
   \<and> now_seconds example_env = now_seconds example_env
   \<and> ''0xcf881e6e268fe1df0fa27e52ad79a17baa62262b468365356e7a6afd79a5096c'' = ''0xcf881e6e268fe1df0fa27e52ad79a17baa62262b468365356e7a6afd79a5096c'' \<and> ''0xaf91a79342fc9017874f5bd68017888ad28cc9b12b1b66db0ad63ed9833372a3'' = ''0xaf91a79342fc9017874f5bd68017888ad28cc9b12b1b66db0ad63ed9833372a3''"
proof -
  have f: "decimal_form (rp_form example_panel)"
    by (simp add: example_panel_def example_decimal_form)
  from fingerprint_determined_by_attributes
    [of "''0xcf881e6e268fe1df0fa27e52ad79a17baa62262b468365356e7a6afd79a5096c''" "''Bag A''" "''Black''" "''Togo Leather''" 1000 2025 admin example_env "[]"
        example_panel_part_005 "''0xcf881e6e268fe1df0fa27e52ad79a17baa62262b468365356e7a6afd79a5096c''" "''0x70997970C51812dc3A010C7d01b50e0d17dc79C8''" "example_env\<lparr>current_year := 2030\<rparr>" "''0x70997970C51812dc3A010C7d01b50e0d17dc79C8''"
        "example_panel_part_005\<lparr>rq_form := example_form\<lparr>f_year := ''2025''\<rparr>\<rparr>"]
    example_upload_part_005 example_upload_part_005_2025 example_upload_t0 f
  show ?thesis
    by simp
qed

text \<open>
  The claim as stated lets nothing but the attributes reach the fingerprint. In
  frontend/src/RegisterPanel.tsx the same form, registered one second later, uploads the
  same five attributes under another fingerprint.
\<close>

theorem fingerprint_time_dependent_counterexample:
  "Upload ''0xaf91a79342fc9017874f5bd68017888ad28cc9b12b1b66db0ad63ed9833372a3'' ''Bag A'' ''Black'' ''Togo Leather'' 1000 0 admin
     \<in> set (snd (RegisterPanel_register example_env admin example_panel))
   \<and> Upload ''0x0eaafc7144b1cbbf7ae3973d8f846b9e5a2b33fe06c694a931a383750c0ada11'' ''Bag A'' ''Black'' ''Togo Leather'' 1000 0 admin
     \<in> set (snd (RegisterPanel_register (example_env\<lparr>now_seconds := 1700000001\<rparr>) admin example_panel))
   \<and> ''0xaf91a79342fc9017874f5bd68017888ad28cc9b12b1b66db0ad63ed9833372a3'' \<noteq> ''0x0eaafc7144b1cbbf7ae3973d8f846b9e5a2b33fe06c694a931a383750c0ada11''"
  using example_upload_t0 example_upload_t1 by simp

text \<open>
  Claim C2, as the code has it. In the RegisterPanel of unnamed/part_005 the
  fingerprint is \<open>0x\<close> and the hex digits of the specification's \<open>derive\<close>: the keccak256
  digest, 32 bytes long, of the packed encoding of exactly name, color, material, price
  and year as they are uploaded, in that order. In frontend/src/RegisterPanel.tsx the
  hashed encoding has a sixth field after the year, the time of the call in seconds as a
  \<open>uint256\<close>. The on-ledger contract has no key scheme of its own: \<open>uploadProduct\<close>
  stores the record under whatever \<open>id\<close> it is given, for every state and every key, so
  the digest is the key on the ledger because the panel passes it as the \<open>id\<close>.
\<close>

theorem fingerprint_is_keccak_of_packed_fields:
  "(Upload i n c m p y a \<in> set (snd (register_part_005 env account st)) \<longrightarrow>
      i = ''0x'' @ hex_lower (derive n c m p y) \<and> length (derive n c m p y) = 32)
   \<and> (decimal_form (rp_form rp) \<and>
      Upload j n c m p y a \<in> set (snd (RegisterPanel_register env account rp)) \<longrightarrow>
      j = ''0x'' @ hex_lower (keccak256 (n @ c @ m @ uint256_bytes p @ uint256_bytes y
                                 @ uint256_bytes (int (now_seconds env)))))
   \<and> getProduct (uploadProduct k n c m q z s) k = (n, c, m, q, z)"
  using register_part_005_fingerprint [of i n c m p y a env account st]
    RegisterPanel_register_fingerprint [of rp j n c m p y a env account]
  by (simp add: derive_def length_keccak256 getProduct_uploadProduct)

theorem fingerprint_is_keccak_of_packed_fields_witness:
  "Upload ''0xcf881e6e268fe1df0fa27e52ad79a17baa62262b468365356e7a6afd79a5096c'' ''Bag A'' ''Black'' ''Togo Leather'' 1000 2025 admin
     \<in> set (snd (register_part_005 example_env [] example_panel_part_005))
   \<and> ''0xcf881e6e268fe1df0fa27e52ad79a17baa62262b468365356e7a6afd79a5096c'' = ''0x'' @ hex_lower (derive ''Bag A'' ''Black'' ''Togo Leather'' 1000 2025)
   \<and> length (derive ''Bag A'' ''Black'' ''Togo Leather'' 1000 2025) = 32
   \<and> decimal_form (rp_form example_panel)
   \<and> Upload ''0xaf91a79342fc9017874f5bd68017888ad28cc9b12b1b66db0ad63ed9833372a3'' ''Bag A'' ''Black'' ''Togo Leather'' 1000 0 admin
     \<in> set (snd (RegisterPanel_register example_env admin example_panel))
   \<and> ''0xaf91a79342fc9017874f5bd68017888ad28cc9b12b1b66db0ad63ed9833372a3'' = ''0x'' @ hex_lower (keccak256 (''Bag A'' @ ''Black'' @ ''Togo Leather''
                  @ uint256_bytes 1000 @ uint256_bytes 0 @ uint256_bytes (int (now_seconds example_env))))"
proof -
  have f: "decimal_form (rp_form example_panel)"
    by (simp add: example_panel_def example_decimal_form)
  from fingerprint_is_keccak_of_packed_fields
    [of "''0xcf881e6e268fe1df0fa27e52ad79a17baa62262b468365356e7a6afd79a5096c''" "''Bag A''" "''Black''" "''Togo Leather''" 1000 2025 admin example_env "[]"
        example_panel_part_005]
  have a: "''0xcf881e6e268fe1df0fa27e52ad79a17baa62262b468365356e7a6afd79a5096c'' = ''0x'' @ hex_lower (derive ''Bag A'' ''Black'' ''Togo Leather'' 1000 2025)"
    and l: "length (derive ''Bag A'' ''Black'' ''Togo Leather'' 1000 2025) = 32"
    using example_upload_part_005 by blast+
  from fingerprint_is_keccak_of_packed_fields
    [of _ "''Bag A''" "''Black''" "''Togo Leather''" 1000 0 admin example_env admin _
        example_panel "''0xaf91a79342fc9017874f5bd68017888ad28cc9b12b1b66db0ad63ed9833372a3''"]
  have b: "''0xaf91a79342fc9017874f5bd68017888ad28cc9b12b1b66db0ad63ed9833372a3'' = ''0x'' @ hex_lower (keccak256 (''Bag A'' @ ''Black'' @ ''Togo Leather''
                  @ uint256_bytes 1000 @ uint256_bytes 0 @ uint256_bytes (int (now_seconds example_env))))"
    using example_upload_t0 f by blast
  from a l b f example_upload_part_005 example_upload_t0 show ?thesis
    by blast
qed

text \<open>
  The claim as stated fails twice. The hash of exactly the five fields is not what
  frontend/src/RegisterPanel.tsx uploads under: the fingerprint of the example is not the
  one \<open>derive\<close> gives for the uploaded attributes. And the key of the on-ledger contract
  follows no scheme: the contract right after deployment takes the attributes of the
  example under the key 0, which is not their digest, and gives them back under it.
\<close>

theorem fingerprint_six_fields_counterexample:
  "Upload ''0xaf91a79342fc9017874f5bd68017888ad28cc9b12b1b66db0ad63ed9833372a3'' ''Bag A'' ''Black'' ''Togo Leather'' 1000 0 admin
     \<in> set (snd (RegisterPanel_register example_env admin example_panel))
   \<and> ''0x'' @ hex_lower (derive ''Bag A'' ''Black'' ''Togo Leather'' 1000 0) = ''0x9196b6b46af419c93438069a994108b8e4fdf1b63dc9c2ccb1697e77d2cfd4ef''
   \<and> ''0xaf91a79342fc9017874f5bd68017888ad28cc9b12b1b66db0ad63ed9833372a3'' \<noteq> ''0x9196b6b46af419c93438069a994108b8e4fdf1b63dc9c2ccb1697e77d2cfd4ef''
   \<and> getProduct (uploadProduct 0 ''Bag A'' ''Black'' ''Togo Leather'' 1000 2025 deployed) 0
       = (''Bag A'', ''Black'', ''Togo Leather'', 1000, 2025)
   \<and> bytes32_of_bytes (derive ''Bag A'' ''Black'' ''Togo Leather'' 1000 2025)
       = 0xcf881e6e268fe1df0fa27e52ad79a17baa62262b468365356e7a6afd79a5096c
   \<and> (0xcf881e6e268fe1df0fa27e52ad79a17baa62262b468365356e7a6afd79a5096c :: bytes32) \<noteq> 0"
  using example_upload_t0 derive_year_0 derive_bytes_2025
  by (simp add: getProduct_uploadProduct)

text \<open>
  Claim C8, as the code has it. With the year left empty, the RegisterPanel of
  unnamed/part_005 uploads and hashes the calendar year of the clock;
  frontend/src/RegisterPanel.tsx uploads and hashes the year 0.
\<close>

theorem year_default:
  "(f_year (rq_form st) = [] \<and>
    Upload i n c m p y a \<in> set (snd (register_part_005 env account st)) \<longrightarrow>
      y = current_year env \<and> i = ''0x'' @ hex_lower (derive n c m p (current_year env)))
   \<and> (decimal_form (rp_form rp) \<and> f_year (rp_form rp) = [] \<and>
      Upload j n c m p y a \<in> set (snd (RegisterPanel_register env account rp)) \<longrightarrow>
      y = 0 \<and> j = ''0x'' @ hex_lower (keccak256 (n @ c @ m @ uint256_bytes p @ uint256_bytes 0
                                 @ uint256_bytes (int (now_seconds env)))))"
  using register_part_005_fingerprint [of i n c m p y a env account st]
    register_part_005_year [of st i n c m p y a env account]
    RegisterPanel_register_fingerprint [of rp j n c m p y a env account]
  by auto

theorem year_default_witness:
  "f_year (rq_form example_panel_part_005) = []
   \<and> Upload ''0xcf881e6e268fe1df0fa27e52ad79a17baa62262b468365356e7a6afd79a5096c'' ''Bag A'' ''Black'' ''Togo Leather'' 1000 2025 admin
     \<in> set (snd (register_part_005 example_env [] example_panel_part_005))
   \<and> (2025 :: int) = current_year example_env
   \<and> decimal_form (rp_form example_panel) \<and> f_year (rp_form example_panel) = []
   \<and> Upload ''0xaf91a79342fc9017874f5bd68017888ad28cc9b12b1b66db0ad63ed9833372a3'' ''Bag A'' ''Black'' ''Togo Leather'' 1000 0 admin
     \<in> set (snd (RegisterPanel_register example_env admin example_panel))"
proof -
  have f: "decimal_form (rp_form example_panel)"
    by (simp add: example_panel_def example_decimal_form)
  have g: "f_year (rp_form example_panel) = []" "f_year (rq_form example_panel_part_005) = []"
    by (simp_all add: example_panel_def example_form_def example_panel_part_005_def)
  from year_default
    [of example_panel_part_005 "''0xcf881e6e268fe1df0fa27e52ad79a17baa62262b468365356e7a6afd79a5096c''" "''Bag A''" "''Black''" "''Togo Leather''" 1000 2025 admin
        example_env "[]"]
  have "(2025 :: int) = current_year example_env"
    using g example_upload_part_005 by blast
  with f g example_upload_part_005 example_upload_t0 show ?thesis
    by blast
qed

text \<open>
  The claim as stated makes the current year the default. In
  frontend/src/RegisterPanel.tsx the example, registered in 2025 with no year, is hashed
  and uploaded with the year 0.
\<close>

theorem year_default_zero_counterexample:
  "f_year (rp_form example_panel) = [] \<and> current_year example_env = 2025
   \<and> snd (RegisterPanel_register example_env admin example_panel) =
       [Upload ''0xaf91a79342fc9017874f5bd68017888ad28cc9b12b1b66db0ad63ed9833372a3'' ''Bag A'' ''Black'' ''Togo Leather'' 1000 0 admin,
        OnQr (''http://localhost:5173/verify/?id='' @ ''0xaf91a79342fc9017874f5bd68017888ad28cc9b12b1b66db0ad63ed9833372a3'') ''0xaf91a79342fc9017874f5bd68017888ad28cc9b12b1b66db0ad63ed9833372a3'',
        Alert (''Registered. Product ID:'' @ [CHR 0x0A] @ ''0xaf91a79342fc9017874f5bd68017888ad28cc9b12b1b66db0ad63ed9833372a3'')]
   \<and> ''0xaf91a79342fc9017874f5bd68017888ad28cc9b12b1b66db0ad63ed9833372a3'' = ''0x'' @ hex_lower (keccak256 (''Bag A'' @ ''Black'' @ ''Togo Leather''
                  @ uint256_bytes 1000 @ uint256_bytes 0 @ uint256_bytes 1700000000))
   \<and> (0 :: int) \<noteq> 2025"
  using example_run_t0 fingerprint_v1_t0
  by (simp add: example_panel_def example_form_def example_env_simps)


end
